theory Spec2Isabelle
  imports Complex_Main "HOL-Library.Word"
begin

unbundle bit_operations_syntax

section \<open>Machine types\<close>

type_synonym uint8_t = "8 word"
type_synonym uint16_t = "16 word"
type_synonym uint32_t = "32 word"

section \<open>Battery monitor (battery.c)\<close>

text \<open>Constants of app.h.\<close>

definition BATTERY_VOLTAGE_MIN_MV :: nat where
  "BATTERY_VOLTAGE_MIN_MV = 2000"

definition BATTERY_VOLTAGE_MAX_MV :: nat where
  "BATTERY_VOLTAGE_MAX_MV = 3200"

text \<open>Constants of battery.c.\<close>

definition ADC_RESOLUTION :: nat where
  "ADC_RESOLUTION = 4096"

definition ADC_REF_VOLTAGE_MV :: nat where
  "ADC_REF_VOLTAGE_MV = 1250"

text \<open>
  \<open>battery_read_voltage\<close>: the ADC sample is the hardware's answer and is a parameter;
  the product and the quotient are computed in \<open>uint32_t\<close> and the result is cut to
  \<open>uint16_t\<close>.
\<close>

definition battery_read_voltage :: "uint32_t \<Rightarrow> uint16_t" where
  "battery_read_voltage adcResult =
     ucast ((adcResult * of_nat ADC_REF_VOLTAGE_MV * 3) div of_nat ADC_RESOLUTION)"

text \<open>
  \<open>battery_voltage_to_percentage\<close>: two early returns, then the interpolation in
  \<open>uint32_t\<close>, cut to \<open>uint8_t\<close>.
\<close>

definition battery_voltage_to_percentage :: "uint16_t \<Rightarrow> uint8_t" where
  "battery_voltage_to_percentage voltage_mv =
     (if voltage_mv \<ge> of_nat BATTERY_VOLTAGE_MAX_MV then 100
      else if voltage_mv \<le> of_nat BATTERY_VOLTAGE_MIN_MV then 0
      else
        (let range = (of_nat BATTERY_VOLTAGE_MAX_MV - of_nat BATTERY_VOLTAGE_MIN_MV :: uint32_t);
             delta = (ucast voltage_mv - of_nat BATTERY_VOLTAGE_MIN_MV :: uint32_t)
         in ucast ((delta * 100) div range)))"

section \<open>SHT31 checksum (sht31.c)\<close>

text \<open>One pass of the inner loop of \<open>calculate_crc\<close>: test the top bit, shift, xor.\<close>

definition crc_shift :: "uint8_t \<Rightarrow> uint8_t" where
  "crc_shift crc =
     (if crc AND 0x80 \<noteq> 0 then push_bit 1 crc XOR 0x31 else push_bit 1 crc)"

text \<open>The inner loop, \<open>bit\<close> counting the passes still to run.\<close>

fun crc_bits :: "nat \<Rightarrow> uint8_t \<Rightarrow> uint8_t" where
  "crc_bits 0 crc = crc"
| "crc_bits (Suc n) crc = crc_bits n (crc_shift crc)"

text \<open>The outer loop over the bytes \<open>data[0 .. len - 1]\<close>.\<close>

fun crc_bytes :: "uint8_t \<Rightarrow> uint8_t list \<Rightarrow> uint8_t" where
  "crc_bytes crc [] = crc"
| "crc_bytes crc (d # ds) = crc_bytes (crc_bits 8 (crc XOR d)) ds"

definition calculate_crc :: "uint8_t list \<Rightarrow> uint8_t" where
  "calculate_crc data = crc_bytes 0xFF data"

section \<open>External collaborators\<close>

text \<open>
  The network stack, the attribute store, the I2C controller, the ADC, the timers and the
  GPIO pin and the C library's \<open>sinf\<close> are outside the firmware. A call into one of them is recorded as an entry of
  the call log of the \<open>world\<close> (oldest first); what a collaborator answers is read
  from the \<open>env\<close> of the handler that is running. Logging macros have no effect on the
  firmware's state and are left out.
\<close>

datatype EmberStatus =
    EMBER_SUCCESS
  | EMBER_NETWORK_UP
  | EMBER_NETWORK_DOWN
  | EMBER_JOIN_FAILED
  | EMBER_STATUS_OTHER uint8_t

datatype zcl_cluster =
    ZCL_BASIC_CLUSTER_ID
  | ZCL_POWER_CONFIG_CLUSTER_ID
  | ZCL_TEMP_MEASUREMENT_CLUSTER_ID
  | ZCL_RELATIVE_HUMIDITY_MEASUREMENT_CLUSTER_ID

datatype zcl_attribute =
    ZCL_MANUFACTURER_NAME_ATTRIBUTE_ID
  | ZCL_MODEL_IDENTIFIER_ATTRIBUTE_ID
  | ZCL_DATE_CODE_ATTRIBUTE_ID
  | ZCL_SW_BUILD_ID_ATTRIBUTE_ID
  | ZCL_HW_VERSION_ATTRIBUTE_ID
  | ZCL_ZCL_VERSION_ATTRIBUTE_ID
  | ZCL_POWER_SOURCE_ATTRIBUTE_ID
  | ZCL_BATTERY_VOLTAGE_ATTRIBUTE_ID
  | ZCL_BATTERY_PERCENTAGE_REMAINING_ATTRIBUTE_ID
  | ZCL_TEMP_MEASURED_VALUE_ATTRIBUTE_ID
  | ZCL_RELATIVE_HUMIDITY_MEASURED_VALUE_ATTRIBUTE_ID

datatype zcl_type =
    ZCL_CHAR_STRING_ATTRIBUTE_TYPE
  | ZCL_INT8U_ATTRIBUTE_TYPE
  | ZCL_ENUM8_ATTRIBUTE_TYPE
  | ZCL_INT16S_ATTRIBUTE_TYPE
  | ZCL_INT16U_ATTRIBUTE_TYPE

text \<open>The bytes behind the \<open>uint8_t*\<close> handed to the attribute store.\<close>

datatype attr_data =
    Data8 uint8_t
  | Data16 uint16_t
  | DataString string

datatype timer_handle = sensorTimer | fastPollTimer

datatype ext_call =
    emberAfSetWakeTimeoutQsCallback nat
  | emberAfAddToCurrentAppTasksCallback
  | emberAfRemoveFromCurrentAppTasksCallback
  | emberAfWriteServerAttribute nat zcl_cluster zcl_attribute attr_data zcl_type
  | emberAfPluginNetworkSteeringStart
  | emberLeaveNetwork
  | sl_sleeptimer_start_timer_ms timer_handle nat
  | sl_sleeptimer_start_periodic_timer_ms timer_handle nat
  | sl_sleeptimer_delay_millisecond nat
  | I2C_write uint8_t uint8_t
  | I2C_read nat
  | ADC_Start
  | sl_led_toggle

record env =
  network_joined :: bool
  steering_start_status :: EmberStatus
  tick_ms :: uint32_t
  i2c_reset_done :: bool
  i2c_cmd_done :: bool
  i2c_read_done :: bool
  i2c_rx :: "nat \<Rightarrow> uint8_t"
  adcResult :: uint32_t
  time_ms :: uint32_t
  pin_pressed :: bool
  led_present :: bool
  sinf :: "real \<Rightarrow> real"

section \<open>Firmware state\<close>

datatype AppState_t =
    APP_STATE_INIT
  | APP_STATE_NOT_JOINED
  | APP_STATE_JOINING
  | APP_STATE_JOINED_FAST_POLL
  | APP_STATE_JOINED_NORMAL
  | APP_STATE_LEAVING

record AppContext_t =
  state :: AppState_t
  fastPollActive :: bool
  joinTimestamp :: uint32_t
  joinAttempts :: uint8_t
  sensorInitialized :: bool
  buttonPressed :: bool

datatype ButtonState_t =
    BUTTON_STATE_IDLE
  | BUTTON_STATE_DEBOUNCE_PRESS
  | BUTTON_STATE_PRESSED
  | BUTTON_STATE_DEBOUNCE_RELEASE
  | BUTTON_STATE_LONG_PRESS_TRIGGERED

record ButtonContext_t =
  bstate :: ButtonState_t
  pressTimestamp :: uint32_t
  releaseTimestamp :: uint32_t
  interruptPending :: bool
  longPressTriggered :: bool

text \<open>
  The file-scope variables of app.c, button.c and sht31.c, and the log of external calls.
  The field \<open>bstate\<close> is \<open>buttonContext.state\<close>.
\<close>

record world =
  appContext :: AppContext_t
  buttonContext :: ButtonContext_t
  sensorPresent :: bool
  fallbackReadCount :: uint32_t
  calls :: "ext_call list"

definition call :: "ext_call \<Rightarrow> world \<Rightarrow> world" where
  "call c w = w\<lparr>calls := calls w @ [c]\<rparr>"

text \<open>The initialisers of the three translation units.\<close>

definition appContext_init :: AppContext_t where
  "appContext_init =
     \<lparr>state = APP_STATE_INIT, fastPollActive = False, joinTimestamp = 0, joinAttempts = 0,
      sensorInitialized = False, buttonPressed = False\<rparr>"

definition buttonContext_init :: ButtonContext_t where
  "buttonContext_init =
     \<lparr>bstate = BUTTON_STATE_IDLE, pressTimestamp = 0, releaseTimestamp = 0,
      interruptPending = False, longPressTriggered = False\<rparr>"

definition world_init :: world where
  "world_init =
     \<lparr>appContext = appContext_init, buttonContext = buttonContext_init,
      sensorPresent = False, fallbackReadCount = 0, calls = []\<rparr>"

section \<open>Single-precision arithmetic\<close>

text \<open>
  A C \<open>float\<close> is modelled by the real number it denotes. Every arithmetic operation on
  \<open>float\<close> operands, every conversion to \<open>float\<close> and every decimal constant is rounded
  to the nearest binary32 value, ties to the even significand (each operation is rounded
  on its own, as on the target's single-precision unit; no multiply and add are fused).
  \<open>f32_exponent\<close> finds the binade of
  its argument by stepping up from exponent 0 (at most to 127) or down (at most to -126,
  where the subnormal range begins and the spacing stays fixed). Overflow to infinity and
  NaN do not occur in the arithmetic of the firmware and are not modelled.
\<close>

definition round_half_even :: "real \<Rightarrow> int" where
  "round_half_even y =
     (let f = \<lfloor>y\<rfloor>; d = y - of_int f
      in if d < 1 / 2 then f else if 1 / 2 < d then f + 1 else if even f then f else f + 1)"

fun exp_up :: "nat \<Rightarrow> int \<Rightarrow> real \<Rightarrow> int" where
  "exp_up 0 e x = e"
| "exp_up (Suc n) e x = (if 2 powi (e + 1) \<le> x then exp_up n (e + 1) x else e)"

fun exp_down :: "nat \<Rightarrow> int \<Rightarrow> real \<Rightarrow> int" where
  "exp_down 0 e x = e"
| "exp_down (Suc n) e x = (if x < 2 powi e then exp_down n (e - 1) x else e)"

definition f32_exponent :: "real \<Rightarrow> int" where
  "f32_exponent x = (if 1 \<le> \<bar>x\<bar> then exp_up 127 0 \<bar>x\<bar> else exp_down 126 0 \<bar>x\<bar>)"

text \<open>Rounding to binary32: the nearest multiple of the spacing of the argument's binade.\<close>

definition f32 :: "real \<Rightarrow> real" where
  "f32 x = (let ulp = 2 powi (f32_exponent x - 23) in of_int (round_half_even (x / ulp)) * ulp)"

definition f32_add :: "real \<Rightarrow> real \<Rightarrow> real" where
  "f32_add x y = f32 (x + y)"

definition f32_mul :: "real \<Rightarrow> real \<Rightarrow> real" where
  "f32_mul x y = f32 (x * y)"

definition f32_div :: "real \<Rightarrow> real \<Rightarrow> real" where
  "f32_div x y = f32 (x / y)"

section \<open>SHT31 driver (sht31.c)\<close>

definition SHT31_CMD_READ_MSB :: uint8_t where
  "SHT31_CMD_READ_MSB = 0x24"

definition SHT31_CMD_READ_LSB :: uint8_t where
  "SHT31_CMD_READ_LSB = 0x00"

definition SHT31_CMD_SOFT_RESET_MSB :: uint8_t where
  "SHT31_CMD_SOFT_RESET_MSB = 0x30"

definition SHT31_CMD_SOFT_RESET_LSB :: uint8_t where
  "SHT31_CMD_SOFT_RESET_LSB = 0xA2"

definition SHT31_MEASURE_DELAY_MS :: nat where
  "SHT31_MEASURE_DELAY_MS = 20"

text \<open>
  \<open>i2c_write_command\<close> and \<open>i2c_read_data\<close> poll the controller until the transfer is
  no longer in progress and return whether it ended with \<open>i2cTransferDone\<close>. The
  controller's final answer is the first argument (from the \<open>env\<close>); on a read the
  buffer holds \<open>len\<close> bytes, byte \<open>i\<close> being \<open>rx i\<close>.
\<close>

definition i2c_write_command :: "bool \<Rightarrow> uint8_t \<Rightarrow> uint8_t \<Rightarrow> world \<Rightarrow> bool \<times> world" where
  "i2c_write_command done cmd_msb cmd_lsb w = (done, call (I2C_write cmd_msb cmd_lsb) w)"

definition i2c_read_data :: "bool \<Rightarrow> (nat \<Rightarrow> uint8_t) \<Rightarrow> nat \<Rightarrow> world \<Rightarrow> (bool \<times> uint8_t list) \<times> world" where
  "i2c_read_data done rx len w = ((done, map rx [0..<len]), call (I2C_read len) w)"

definition delay_ms :: "nat \<Rightarrow> world \<Rightarrow> world" where
  "delay_ms ms w = call (sl_sleeptimer_delay_millisecond ms) w"

text \<open>
  \<open>generate_fallback_values\<close>: the counter is a \<open>uint32_t\<close> and is incremented first; it
  is converted to \<open>float\<close> for the products. \<open>sinf\<close> takes and returns a \<open>float\<close>.
\<close>

definition generate_fallback_values :: "env \<Rightarrow> world \<Rightarrow> (real \<times> real) \<times> world" where
  "generate_fallback_values e w =
     (let n = fallbackReadCount w + 1;
          temp_base = 22.5;
          temp_variation = f32_mul 2.5 (sinf e (f32_mul (f32 (real (unat n))) (f32 0.1)));
          hum_base = 50.0;
          hum_variation =
            f32_mul 10.0 (sinf e (f32_add (f32_mul (f32 (real (unat n))) (f32 0.15)) (f32 1.57)))
      in ((f32_add temp_base temp_variation, f32_add hum_base hum_variation),
          w\<lparr>fallbackReadCount := n\<rparr>))"

text \<open>The fallback exit of \<open>sht31_read\<close>: synthesise and return \<open>false\<close>.\<close>

definition read_fallback :: "env \<Rightarrow> world \<Rightarrow> (bool \<times> real \<times> real) \<times> world" where
  "read_fallback e w =
     (let ((t, h), w') = generate_fallback_values e w in ((False, t, h), w'))"

text \<open>
  The conversion of a verified frame. The raw words are \<open>uint16_t\<close> and convert to
  \<open>float\<close> exactly; the product, the quotient and the sum are each rounded.
\<close>

definition sht31_convert :: "uint8_t list \<Rightarrow> real \<times> real" where
  "sht31_convert data =
     (let temp_raw = (push_bit 8 (ucast (data ! 0)) OR ucast (data ! 1) :: uint16_t);
          temperature_c = f32_add (- 45.0) (f32_div (f32_mul 175.0 (real (unat temp_raw))) 65535.0);
          hum_raw = (push_bit 8 (ucast (data ! 3)) OR ucast (data ! 4) :: uint16_t);
          humidity_rh = f32_div (f32_mul 100.0 (real (unat hum_raw))) 65535.0;
          humidity_rh = (if humidity_rh < 0.0 then 0.0 else humidity_rh);
          humidity_rh = (if humidity_rh > 100.0 then 100.0 else humidity_rh)
      in (temperature_c, humidity_rh))"

definition sht31_read :: "env \<Rightarrow> world \<Rightarrow> (bool \<times> real \<times> real) \<times> world" where
  "sht31_read e w =
     (if \<not> sensorPresent w then read_fallback e w
      else
        (let (sent, w1) = i2c_write_command (i2c_cmd_done e) SHT31_CMD_READ_MSB SHT31_CMD_READ_LSB w
         in if \<not> sent then read_fallback e (w1\<lparr>sensorPresent := False\<rparr>)
            else
              (let w2 = delay_ms SHT31_MEASURE_DELAY_MS w1;
                   ((got, data), w3) = i2c_read_data (i2c_read_done e) (i2c_rx e) 6 w2
               in if \<not> got then read_fallback e (w3\<lparr>sensorPresent := False\<rparr>)
                  else if calculate_crc (take 2 data) \<noteq> data ! 2 then read_fallback e w3
                  else if calculate_crc (take 2 (drop 3 data)) \<noteq> data ! 5 then read_fallback e w3
                  else
                    (let (temperature_c, humidity_rh) = sht31_convert data
                     in ((True, temperature_c, humidity_rh), w3)))))"

definition sht31_reset :: "env \<Rightarrow> world \<Rightarrow> bool \<times> world" where
  "sht31_reset e w =
     i2c_write_command (i2c_reset_done e) SHT31_CMD_SOFT_RESET_MSB SHT31_CMD_SOFT_RESET_LSB w"

text \<open>\<open>sht31_init\<close>: clock, pin and controller set-up are not logged.\<close>

definition sht31_init :: "env \<Rightarrow> world \<Rightarrow> bool \<times> world" where
  "sht31_init e w =
     (let w1 = delay_ms 10 w;
          (present, w2) = sht31_reset e w1;
          w3 = w2\<lparr>sensorPresent := present\<rparr>
      in (sensorPresent w3, w3))"

text \<open>A run of reads, one \<open>env\<close> per read; the results in order.\<close>

fun sht31_reads :: "env list \<Rightarrow> world \<Rightarrow> (bool \<times> real \<times> real) list \<times> world" where
  "sht31_reads [] w = ([], w)"
| "sht31_reads (e # es) w =
     (let (r, w1) = sht31_read e w;
          (rs, w2) = sht31_reads es w1
      in (r # rs, w2))"

section \<open>Button driver (button.c)\<close>

definition BUTTON_DEBOUNCE_MS :: uint32_t where
  "BUTTON_DEBOUNCE_MS = 50"

definition BUTTON_LONG_PRESS_MS :: uint32_t where
  "BUTTON_LONG_PRESS_MS = 3000"

text \<open>The two callbacks \<open>button_process\<close> can invoke.\<close>

datatype button_callback = button_short_press_callback | button_long_press_callback

text \<open>\<open>button_gpio_callback\<close>, the handler of both edges.\<close>

definition button_gpio_callback :: "ButtonContext_t \<Rightarrow> ButtonContext_t" where
  "button_gpio_callback c = c\<lparr>interruptPending := True\<rparr>"

text \<open>
  \<open>button_process\<close>, one \<open>switch\<close> on the state. \<open>currentTime\<close> is what
  \<open>get_time_ms\<close> returns and \<open>pressed\<close> what \<open>is_button_physically_pressed\<close> returns
  where the branch taken reads the pin. The result lists the callbacks invoked, in order.
  All differences of timestamps are \<open>uint32_t\<close> differences.
\<close>

definition button_process :: "uint32_t \<Rightarrow> bool \<Rightarrow> ButtonContext_t \<Rightarrow> button_callback list \<times> ButtonContext_t" where
  "button_process currentTime pressed c =
     (case bstate c of
        BUTTON_STATE_IDLE \<Rightarrow>
          (if interruptPending c then
             (let c1 = c\<lparr>interruptPending := False\<rparr>
              in if pressed
                 then ([], c1\<lparr>bstate := BUTTON_STATE_DEBOUNCE_PRESS, pressTimestamp := currentTime\<rparr>)
                 else ([], c1))
           else ([], c))
      | BUTTON_STATE_DEBOUNCE_PRESS \<Rightarrow>
          (if currentTime - pressTimestamp c \<ge> BUTTON_DEBOUNCE_MS then
             (if pressed
              then ([], c\<lparr>bstate := BUTTON_STATE_PRESSED, longPressTriggered := False\<rparr>)
              else ([], c\<lparr>bstate := BUTTON_STATE_IDLE\<rparr>))
           else ([], c))
      | BUTTON_STATE_PRESSED \<Rightarrow>
          (let c1 =
                 (if interruptPending c then
                    (let c0 = c\<lparr>interruptPending := False\<rparr>
                     in if \<not> pressed
                        then c0\<lparr>bstate := BUTTON_STATE_DEBOUNCE_RELEASE, releaseTimestamp := currentTime\<rparr>
                        else c0)
                  else c);
               pressedDuration = currentTime - pressTimestamp c1
           in if \<not> longPressTriggered c1 \<and> pressedDuration \<ge> BUTTON_LONG_PRESS_MS
              then ([button_long_press_callback],
                    c1\<lparr>longPressTriggered := True, bstate := BUTTON_STATE_LONG_PRESS_TRIGGERED\<rparr>)
              else ([], c1))
      | BUTTON_STATE_DEBOUNCE_RELEASE \<Rightarrow>
          (if currentTime - releaseTimestamp c \<ge> BUTTON_DEBOUNCE_MS then
             (if \<not> pressed then
                (if \<not> longPressTriggered c
                 then ([button_short_press_callback], c\<lparr>bstate := BUTTON_STATE_IDLE\<rparr>)
                 else ([], c\<lparr>bstate := BUTTON_STATE_IDLE\<rparr>))
              else ([], c\<lparr>bstate := BUTTON_STATE_PRESSED\<rparr>))
           else ([], c))
      | BUTTON_STATE_LONG_PRESS_TRIGGERED \<Rightarrow>
          (if interruptPending c then
             (let c1 = c\<lparr>interruptPending := False\<rparr>
              in if \<not> pressed
                 then ([], c1\<lparr>bstate := BUTTON_STATE_DEBOUNCE_RELEASE, releaseTimestamp := currentTime\<rparr>)
                 else ([], c1))
           else ([], c)))"

text \<open>
  What the button driver sees over time: an edge interrupt, or a pass of the main loop
  through \<open>button_process\<close> at a time and with a pin level.
\<close>

datatype button_input = Edge | Process uint32_t bool

fun button_step :: "button_input \<Rightarrow> ButtonContext_t \<Rightarrow> button_callback list \<times> ButtonContext_t" where
  "button_step Edge c = ([], button_gpio_callback c)"
| "button_step (Process currentTime pressed) c = button_process currentTime pressed c"

fun button_run :: "button_input list \<Rightarrow> ButtonContext_t \<Rightarrow> button_callback list \<times> ButtonContext_t" where
  "button_run [] c = ([], c)"
| "button_run (i # is) c =
     (let (out1, c1) = button_step i c;
          (out2, c2) = button_run is c1
      in (out1 @ out2, c2))"

section \<open>Application (app.c)\<close>

definition APP_ENDPOINT :: nat where
  "APP_ENDPOINT = 1"

definition APP_SENSOR_READ_PERIOD_MS :: nat where
  "APP_SENSOR_READ_PERIOD_MS = 10000"

definition APP_FAST_POLL_TIMEOUT_MS :: nat where
  "APP_FAST_POLL_TIMEOUT_MS = 30000"

definition APP_FAST_POLL_INTERVAL_QS :: nat where
  "APP_FAST_POLL_INTERVAL_QS = 2"

definition APP_NORMAL_POLL_INTERVAL_QS :: nat where
  "APP_NORMAL_POLL_INTERVAL_QS = 30"

definition set_state :: "AppState_t \<Rightarrow> world \<Rightarrow> world" where
  "set_state s w = w\<lparr>appContext := (appContext w)\<lparr>state := s\<rparr>\<rparr>"

definition app_set_fast_poll :: "bool \<Rightarrow> world \<Rightarrow> world" where
  "app_set_fast_poll enable w =
     (if enable \<and> \<not> fastPollActive (appContext w) then
        (let w1 = call (emberAfSetWakeTimeoutQsCallback APP_FAST_POLL_INTERVAL_QS) w;
             w2 = call emberAfAddToCurrentAppTasksCallback w1
         in w2\<lparr>appContext := (appContext w2)\<lparr>fastPollActive := True\<rparr>\<rparr>)
      else if \<not> enable \<and> fastPollActive (appContext w) then
        (let w1 = call (emberAfSetWakeTimeoutQsCallback APP_NORMAL_POLL_INTERVAL_QS) w;
             w2 = call emberAfRemoveFromCurrentAppTasksCallback w1
         in w2\<lparr>appContext := (appContext w2)\<lparr>fastPollActive := False\<rparr>\<rparr>)
      else w)"

text \<open>
  The products \<open>temperature_celsius * 100\<close> and \<open>humidity_percent * 100\<close> are
  \<open>float\<close> products. The casts to \<open>int16_t\<close> and \<open>uint16_t\<close> drop the fraction
  (towards zero); the values the driver produces are in range of both types.
\<close>

definition float_to_int :: "real \<Rightarrow> int" where
  "float_to_int x = (if x \<ge> 0 then \<lfloor>x\<rfloor> else \<lceil>x\<rceil>)"

definition app_update_sensor_data :: "env \<Rightarrow> world \<Rightarrow> world" where
  "app_update_sensor_data e w =
     (let ((success, temperature_celsius, humidity_percent), w1) = sht31_read e w
      in if success \<or> \<not> sensorInitialized (appContext w1) then
           (let temperature_raw = (word_of_int (float_to_int (f32_mul temperature_celsius 100)) :: uint16_t);
                humidity_raw = (word_of_int (float_to_int (f32_mul humidity_percent 100)) :: uint16_t);
                w2 = call (emberAfWriteServerAttribute APP_ENDPOINT
                             ZCL_TEMP_MEASUREMENT_CLUSTER_ID
                             ZCL_TEMP_MEASURED_VALUE_ATTRIBUTE_ID
                             (Data16 temperature_raw)
                             ZCL_INT16S_ATTRIBUTE_TYPE) w1
            in call (emberAfWriteServerAttribute APP_ENDPOINT
                       ZCL_RELATIVE_HUMIDITY_MEASUREMENT_CLUSTER_ID
                       ZCL_RELATIVE_HUMIDITY_MEASURED_VALUE_ATTRIBUTE_ID
                       (Data16 humidity_raw)
                       ZCL_INT16U_ATTRIBUTE_TYPE) w2)
         else w1)"

definition app_update_battery_data :: "env \<Rightarrow> world \<Rightarrow> world" where
  "app_update_battery_data e w =
     (let w1 = call ADC_Start w;
          voltage_mv = battery_read_voltage (adcResult e);
          percentage = battery_voltage_to_percentage voltage_mv;
          battery_voltage = (ucast (voltage_mv div 100) :: uint8_t);
          battery_percentage = percentage * 2;
          w2 = call (emberAfWriteServerAttribute APP_ENDPOINT
                       ZCL_POWER_CONFIG_CLUSTER_ID
                       ZCL_BATTERY_VOLTAGE_ATTRIBUTE_ID
                       (Data8 battery_voltage)
                       ZCL_INT8U_ATTRIBUTE_TYPE) w1
      in call (emberAfWriteServerAttribute APP_ENDPOINT
                 ZCL_POWER_CONFIG_CLUSTER_ID
                 ZCL_BATTERY_PERCENTAGE_REMAINING_ATTRIBUTE_ID
                 (Data8 battery_percentage)
                 ZCL_INT8U_ATTRIBUTE_TYPE) w2)"

definition app_trigger_sensor_read :: "env \<Rightarrow> world \<Rightarrow> world" where
  "app_trigger_sensor_read e w = app_update_battery_data e (app_update_sensor_data e w)"

text \<open>
  The steering-complete callback. Its arguments \<open>totalBeacons\<close>, \<open>joinAttempts\<close> and
  \<open>finalState\<close> are only logged and are left out.
\<close>

definition emberAfPluginNetworkSteeringCompleteCallback :: "env \<Rightarrow> EmberStatus \<Rightarrow> world \<Rightarrow> world" where
  "emberAfPluginNetworkSteeringCompleteCallback e status w =
     (if status = EMBER_SUCCESS then
        (let w1 = w\<lparr>appContext := (appContext w)\<lparr>state := APP_STATE_JOINED_FAST_POLL,
                                                  joinTimestamp := tick_ms e\<rparr>\<rparr>;
             w2 = app_set_fast_poll True w1
         in call (sl_sleeptimer_start_timer_ms fastPollTimer APP_FAST_POLL_TIMEOUT_MS) w2)
      else
        w\<lparr>appContext := (appContext w)\<lparr>state := APP_STATE_NOT_JOINED,
                                       joinAttempts := joinAttempts (appContext w) + 1\<rparr>\<rparr>)"

definition app_start_join :: "env \<Rightarrow> world \<Rightarrow> world" where
  "app_start_join e w =
     (if state (appContext w) = APP_STATE_JOINING then w
      else if network_joined e then w
      else
        (let w1 = set_state APP_STATE_JOINING w;
             w2 = call emberAfPluginNetworkSteeringStart w1;
             status = steering_start_status e
         in if status = EMBER_SUCCESS then w2
            else set_state APP_STATE_NOT_JOINED w2))"

definition app_leave_network :: "env \<Rightarrow> world \<Rightarrow> world" where
  "app_leave_network e w =
     (if \<not> network_joined e then w
      else
        (let w1 = set_state APP_STATE_LEAVING w;
             w2 = (if fastPollActive (appContext w1) then app_set_fast_poll False w1 else w1)
         in call emberLeaveNetwork w2))"

definition app_stack_status_callback :: "EmberStatus \<Rightarrow> world \<Rightarrow> world" where
  "app_stack_status_callback status w =
     (case status of
        EMBER_NETWORK_UP \<Rightarrow>
          (if state (appContext w) \<noteq> APP_STATE_JOINED_FAST_POLL \<and>
              state (appContext w) \<noteq> APP_STATE_JOINED_NORMAL
           then set_state APP_STATE_JOINED_NORMAL w
           else w)
      | EMBER_NETWORK_DOWN \<Rightarrow>
          (let w1 = set_state APP_STATE_NOT_JOINED w
           in if fastPollActive (appContext w1) then app_set_fast_poll False w1 else w1)
      | EMBER_JOIN_FAILED \<Rightarrow> set_state APP_STATE_NOT_JOINED w
      | _ \<Rightarrow> w)"

definition sensor_timer_callback :: "env \<Rightarrow> world \<Rightarrow> world" where
  "sensor_timer_callback e w =
     (if state (appContext w) = APP_STATE_JOINED_FAST_POLL \<or>
         state (appContext w) = APP_STATE_JOINED_NORMAL
      then app_update_battery_data e (app_update_sensor_data e w)
      else w)"

definition transition_to_normal_poll :: "world \<Rightarrow> world" where
  "transition_to_normal_poll w =
     (if state (appContext w) = APP_STATE_JOINED_FAST_POLL
      then app_set_fast_poll False (set_state APP_STATE_JOINED_NORMAL w)
      else w)"

definition fast_poll_timer_callback :: "world \<Rightarrow> world" where
  "fast_poll_timer_callback w = transition_to_normal_poll w"

text \<open>
  The application's implementations of \<open>button_short_press_callback\<close> and
  \<open>button_long_press_callback\<close> (the tags above carry those names). The LED is
  compiled in or not; \<open>led_present\<close> says which.
\<close>

definition app_button_short_press :: "env \<Rightarrow> world \<Rightarrow> world" where
  "app_button_short_press e w =
     (if state (appContext w) = APP_STATE_NOT_JOINED then app_start_join e w
      else if state (appContext w) = APP_STATE_JOINED_FAST_POLL \<or>
              state (appContext w) = APP_STATE_JOINED_NORMAL then
        (let w1 = app_trigger_sensor_read e w
         in if led_present e then call sl_led_toggle w1 else w1)
      else w)"

definition app_button_long_press :: "env \<Rightarrow> world \<Rightarrow> world" where
  "app_button_long_press e w =
     (if network_joined e then app_leave_network e w else app_start_join e w)"

fun run_button_callback :: "env \<Rightarrow> button_callback \<Rightarrow> world \<Rightarrow> world" where
  "run_button_callback e button_short_press_callback w = app_button_short_press e w"
| "run_button_callback e button_long_press_callback w = app_button_long_press e w"

text \<open>
  \<open>app_process_action\<close>: \<open>button_process\<close>, whose callbacks run in the application, and
  a \<open>switch\<close> on the state with six empty branches. The callbacks neither read nor
  write the button context, so they are run on the world that already holds the updated
  context.
\<close>

definition app_process_action :: "env \<Rightarrow> world \<Rightarrow> world" where
  "app_process_action e w =
     (let (cbs, c) = button_process (time_ms e) (pin_pressed e) (buttonContext w);
          w1 = w\<lparr>buttonContext := c\<rparr>
      in fold (run_button_callback e) cbs w1)"

text \<open>
  \<open>app_init\<close>: driver initialisation (only the sensor's has a result), the periodic
  timer, and the branch on the stack's network state.
\<close>

definition app_init :: "env \<Rightarrow> world \<Rightarrow> world" where
  "app_init e w =
     (let (present, w1) = sht31_init e w;
          w2 = w1\<lparr>appContext := (appContext w1)\<lparr>sensorInitialized := present\<rparr>\<rparr>;
          w3 = call (sl_sleeptimer_start_periodic_timer_ms sensorTimer APP_SENSOR_READ_PERIOD_MS) w2
      in if network_joined e
         then app_update_battery_data e (app_update_sensor_data e (set_state APP_STATE_JOINED_NORMAL w3))
         else set_state APP_STATE_NOT_JOINED w3)"

text \<open>
  Everything that can happen to the session between two quiescent points: a framework
  callback, a timer expiry, a GPIO edge or a CLI command, with the collaborators' answers
  during it. A handler runs to completion before the next one starts.
\<close>

datatype event =
    MainInit
  | MainTick
  | StackStatus EmberStatus
  | SteeringComplete EmberStatus
  | SensorTimer
  | FastPollTimer
  | GpioEdge
  | CliSensorRead
  | CliBatteryRead

fun handle :: "event \<Rightarrow> env \<Rightarrow> world \<Rightarrow> world" where
  "handle MainInit e w = app_init e w"
| "handle MainTick e w = app_process_action e w"
| "handle (StackStatus status) e w = app_stack_status_callback status w"
| "handle (SteeringComplete status) e w = emberAfPluginNetworkSteeringCompleteCallback e status w"
| "handle SensorTimer e w = sensor_timer_callback e w"
| "handle FastPollTimer e w = fast_poll_timer_callback w"
| "handle GpioEdge e w = w\<lparr>buttonContext := button_gpio_callback (buttonContext w)\<rparr>"
| "handle CliSensorRead e w = app_trigger_sensor_read e w"
| "handle CliBatteryRead e w = app_update_battery_data e w"

fun run :: "(event \<times> env) list \<Rightarrow> world \<Rightarrow> world" where
  "run [] w = w"
| "run ((ev, e) # rest) w = run rest (handle ev e w)"

section \<open>Basic cluster initialisation (zcl\_callbacks.c)\<close>

definition APP_MANUFACTURER_NAME :: string where
  "APP_MANUFACTURER_NAME = ''faronov''"

definition APP_MODEL_IDENTIFIER :: string where
  "APP_MODEL_IDENTIFIER = ''EFR32MG1-SED-SHT31''"

definition APP_DATE_CODE :: string where
  "APP_DATE_CODE = ''20260208''"

definition APP_SW_BUILD_ID :: string where
  "APP_SW_BUILD_ID = ''1.0.0''"

definition APP_HW_VERSION :: uint8_t where
  "APP_HW_VERSION = 1"

definition APP_ZCL_VERSION :: uint8_t where
  "APP_ZCL_VERSION = 3"

text \<open>
  The stack's power-source enumeration is declared outside the repository. The source
  annotates the constant it uses with its value, \<open>0x01\<close>.
\<close>

definition EMBER_ZCL_POWER_SOURCE_SINGLE_PHASE_MAINS :: uint8_t where
  "EMBER_ZCL_POWER_SOURCE_SINGLE_PHASE_MAINS = 0x01"

text \<open>
  Modelled from the spec: the enumeration value for a battery power source, which the
  repository never names; the specification's design notes give it as \<open>0x03\<close>.
\<close>

definition EMBER_ZCL_POWER_SOURCE_BATTERY :: uint8_t where
  "EMBER_ZCL_POWER_SOURCE_BATTERY = 0x03"

definition emberAfBasicClusterServerInitCallback :: "nat \<Rightarrow> world \<Rightarrow> world" where
  "emberAfBasicClusterServerInitCallback endpoint w =
     (let w1 = call (emberAfWriteServerAttribute endpoint ZCL_BASIC_CLUSTER_ID
                       ZCL_MANUFACTURER_NAME_ATTRIBUTE_ID
                       (DataString APP_MANUFACTURER_NAME) ZCL_CHAR_STRING_ATTRIBUTE_TYPE) w;
          w2 = call (emberAfWriteServerAttribute endpoint ZCL_BASIC_CLUSTER_ID
                       ZCL_MODEL_IDENTIFIER_ATTRIBUTE_ID
                       (DataString APP_MODEL_IDENTIFIER) ZCL_CHAR_STRING_ATTRIBUTE_TYPE) w1;
          w3 = call (emberAfWriteServerAttribute endpoint ZCL_BASIC_CLUSTER_ID
                       ZCL_DATE_CODE_ATTRIBUTE_ID
                       (DataString APP_DATE_CODE) ZCL_CHAR_STRING_ATTRIBUTE_TYPE) w2;
          w4 = call (emberAfWriteServerAttribute endpoint ZCL_BASIC_CLUSTER_ID
                       ZCL_SW_BUILD_ID_ATTRIBUTE_ID
                       (DataString APP_SW_BUILD_ID) ZCL_CHAR_STRING_ATTRIBUTE_TYPE) w3;
          hwVersion = APP_HW_VERSION;
          w5 = call (emberAfWriteServerAttribute endpoint ZCL_BASIC_CLUSTER_ID
                       ZCL_HW_VERSION_ATTRIBUTE_ID
                       (Data8 hwVersion) ZCL_INT8U_ATTRIBUTE_TYPE) w4;
          zclVersion = APP_ZCL_VERSION;
          w6 = call (emberAfWriteServerAttribute endpoint ZCL_BASIC_CLUSTER_ID
                       ZCL_ZCL_VERSION_ATTRIBUTE_ID
                       (Data8 zclVersion) ZCL_INT8U_ATTRIBUTE_TYPE) w5;
          powerSource = EMBER_ZCL_POWER_SOURCE_SINGLE_PHASE_MAINS
      in call (emberAfWriteServerAttribute endpoint ZCL_BASIC_CLUSTER_ID
                 ZCL_POWER_SOURCE_ATTRIBUTE_ID
                 (Data8 powerSource) ZCL_ENUM8_ATTRIBUTE_TYPE) w6)"

section \<open>Observations on the call log\<close>

text \<open>Writes to the attribute store, and those of the two measured values.\<close>

fun is_attr_write :: "ext_call \<Rightarrow> bool" where
  "is_attr_write (emberAfWriteServerAttribute ep cl a d ty) = True"
| "is_attr_write _ = False"

fun is_sensor_write :: "ext_call \<Rightarrow> bool" where
  "is_sensor_write (emberAfWriteServerAttribute ep cl a d ty) =
     (a = ZCL_TEMP_MEASURED_VALUE_ATTRIBUTE_ID \<or>
      a = ZCL_RELATIVE_HUMIDITY_MEASURED_VALUE_ATTRIBUTE_ID)"
| "is_sensor_write _ = False"

text \<open>One half of the session invariant: phase \<open>JOINED_FAST_POLL\<close> has fast poll on.\<close>

definition fast_poll_phase_ok :: "world \<Rightarrow> bool" where
  "fast_poll_phase_ok w =
     (state (appContext w) = APP_STATE_JOINED_FAST_POLL \<longrightarrow> fastPollActive (appContext w))"

section \<open>Reference definitions in the words of the specification\<close>

text \<open>
  The CRC as the specification describes it, bit by bit: a register of eight bits starts
  at \<open>init\<close>; the message bits enter most significant bit first, unreflected; a bit
  that differs from the register's top bit makes the shifted register take the polynomial;
  the result is the register xor \<open>xorout\<close>.
\<close>

definition crc8_feed_bit :: "uint8_t \<Rightarrow> uint8_t \<Rightarrow> bool \<Rightarrow> uint8_t" where
  "crc8_feed_bit poly reg b =
     (if bit reg 7 \<noteq> b then push_bit 1 reg XOR poly else push_bit 1 reg)"

definition bits_msb_first :: "uint8_t \<Rightarrow> bool list" where
  "bits_msb_first d = map (bit d) [7, 6, 5, 4, 3, 2, 1, 0]"

definition crc8_spec :: "uint8_t \<Rightarrow> uint8_t \<Rightarrow> uint8_t \<Rightarrow> uint8_t list \<Rightarrow> uint8_t" where
  "crc8_spec poly init xorout msg =
     foldl (crc8_feed_bit poly) init (concat (map bits_msb_first msg)) XOR xorout"

text \<open>The linear map of the battery section, on natural numbers.\<close>

definition to_percent_spec :: "nat \<Rightarrow> nat" where
  "to_percent_spec mv =
     (if mv \<le> 2000 then 0 else if 3200 \<le> mv then 100 else (mv - 2000) * 100 div 1200)"

section \<open>Example inputs\<close>

text \<open>
  An environment in which the stack reports no network, every transfer completes, the
  sensor answers the frame \<open>BE EF 92 BE EF 92\<close>, the ADC reads 2800 and the button is up
  (the sine is a constant here, so that the example can be evaluated; no statement depends
  on its values); and a world after a boot that found the sensor.
\<close>

definition env_ok :: env where
  "env_ok =
     \<lparr>network_joined = False, steering_start_status = EMBER_SUCCESS,
      tick_ms = 0, i2c_reset_done = True, i2c_cmd_done = True, i2c_read_done = True,
      i2c_rx = (\<lambda>i. [0xBE, 0xEF, 0x92, 0xBE, 0xEF, 0x92] ! i),
      adcResult = 2800, time_ms = 0, pin_pressed = False, led_present = True,
      sinf = (\<lambda>x. 0)\<rparr>"

definition world_sensor_found :: world where
  "world_sensor_found =
     world_init\<lparr>appContext := appContext_init\<lparr>sensorInitialized := True\<rparr>,
                sensorPresent := True\<rparr>"

text \<open>The same environment with a six-byte read that fails, and with a corrupted frame.\<close>

definition env_read_fails :: env where
  "env_read_fails = env_ok\<lparr>i2c_read_done := False\<rparr>"

definition env_bad_crc :: env where
  "env_bad_crc = env_ok\<lparr>i2c_rx := (\<lambda>i. [0xBE, 0xEF, 0x93, 0xBE, 0xEF, 0x92] ! i)\<rparr>"

text \<open>
  A steering start that is refused, a steering that ends without a network, and the world
  after a boot that found the sensor but no network.
\<close>

definition env_steering_refused :: env where
  "env_steering_refused = env_ok\<lparr>steering_start_status := EMBER_STATUS_OTHER 0x01\<rparr>"

definition world_not_joined :: world where
  "world_not_joined = set_state APP_STATE_NOT_JOINED world_sensor_found"

definition world_joining :: world where
  "world_joining = set_state APP_STATE_JOINING world_sensor_found"

text \<open>The world of a joined device in normal poll whose boot found the sensor.\<close>

definition world_joined_normal :: world where
  "world_joined_normal = set_state APP_STATE_JOINED_NORMAL world_sensor_found"

text \<open>
  A session: boot without a network, a short button press (edge, debounce, release,
  debounce) that starts the join, and a successful join.
\<close>

definition session_join :: "(event \<times> env) list" where
  "session_join =
     [(MainInit, env_ok),
      (GpioEdge, env_ok),
      (MainTick, env_ok\<lparr>time_ms := 1000, pin_pressed := True\<rparr>),
      (MainTick, env_ok\<lparr>time_ms := 1050, pin_pressed := True\<rparr>),
      (GpioEdge, env_ok),
      (MainTick, env_ok\<lparr>time_ms := 1200\<rparr>),
      (MainTick, env_ok\<lparr>time_ms := 1250\<rparr>),
      (SteeringComplete EMBER_SUCCESS, env_ok\<lparr>tick_ms := 5000\<rparr>)]"

text \<open>
  A press seen at 0 ms and confirmed at 50 ms, still down at 2999 ms; the release edge
  arrives and the next pass, at 3000 ms, reads the pin up. Then a second press of half a
  second, with both debounce intervals observed.
\<close>

definition press_released_at_threshold :: "button_input list" where
  "press_released_at_threshold =
     [Edge, Process 0 True, Process 50 True, Process 2999 True, Edge, Process 3000 False]"

definition second_press :: "button_input list" where
  "second_press =
     [Process 3050 False, Process 4000 False,
      Edge, Process 5000 True, Process 5050 True, Process 5300 True,
      Edge, Process 5500 False, Process 5550 False]"

section \<open>Battery mapping\<close>

lemma unat_ucast_16_32: "unat (ucast (v :: uint16_t) :: uint32_t) = unat v"
proof -
  have "unat v < 2 ^ 16" using unsigned_less [of v] by simp
  then have "unat v < 2 ^ 32" by simp
  then show ?thesis by (simp add: unsigned_ucast_eq take_bit_nat_eq_self)
qed

lemma battery_percentage_unat:
  "unat (battery_voltage_to_percentage v) = to_percent_spec (unat v)"
proof -
  have le1: "(3200 \<le> v) = (3200 \<le> unat v)" by (simp add: word_le_nat_alt)
  have le2: "(v \<le> 2000) = (unat v \<le> 2000)" by (simp add: word_le_nat_alt)
  show ?thesis
  proof (cases "3200 \<le> unat v \<or> unat v \<le> 2000")
    case True
    then show ?thesis
      by (auto simp: battery_voltage_to_percentage_def BATTERY_VOLTAGE_MAX_MV_def
            BATTERY_VOLTAGE_MIN_MV_def to_percent_spec_def le1 le2)
  next
    case False
    then have b: "2000 < unat v" "unat v < 3200" by auto
    define a :: uint32_t where "a = ucast v - 2000"
    have "unat (ucast v - 2000 :: uint32_t) = unat v - 2000"
      using b by (simp add: unat_sub word_le_nat_alt unat_ucast_16_32)
    then have da: "unat a = unat v - 2000" by (simp add: a_def)
    have "unat a * unat (100 :: uint32_t) < 2 ^ LENGTH(32)" using b da by simp
    then have "unat (a * 100) = unat a * unat (100 :: uint32_t)"
      by (rule unat_mult_lem [THEN iffD1])
    then have m: "unat (a * 100) = (unat v - 2000) * 100" using da by simp
    have "unat ((a * 100) div 1200) = unat (a * 100) div unat (1200 :: uint32_t)"
      by (rule unat_div)
    then have q: "unat ((a * 100) div 1200) = (unat v - 2000) * 100 div 1200"
      using m by simp
    have lt: "(unat v - 2000) * 100 div 1200 < 256" using b by simp
    have r: "unat (ucast ((a * 100) div 1200) :: uint8_t) = (unat v - 2000) * 100 div 1200"
      using q lt by (simp add: unsigned_ucast_eq take_bit_nat_eq_self)
    have "battery_voltage_to_percentage v = ucast ((a * 100) div 1200)"
      using False
      by (simp add: battery_voltage_to_percentage_def BATTERY_VOLTAGE_MAX_MV_def
            BATTERY_VOLTAGE_MIN_MV_def le1 le2 Let_def a_def)
    then show ?thesis using r False by (simp add: to_percent_spec_def)
  qed
qed

lemma to_percent_spec_mono: "m \<le> n \<Longrightarrow> to_percent_spec m \<le> to_percent_spec n"
proof -
  assume mn: "m \<le> n"
  have mid: "(k - 2000) * 100 div 1200 \<le> 100" if "k < 3200" for k :: nat
    using that by simp
  have step: "(m - 2000) * 100 div 1200 \<le> (n - 2000) * 100 div 1200"
    using mn by (intro div_le_mono mult_le_mono1 diff_le_mono)
  show ?thesis
    using mn mid [of m] step by (auto simp: to_percent_spec_def not_le)
qed

lemma to_percent_spec_le_100: "to_percent_spec n \<le> 100"
  by (auto simp: to_percent_spec_def not_le)

text \<open>
  C6. \<open>battery_voltage_to_percentage\<close> is monotone non-decreasing over all
  \<open>uint16_t\<close> inputs, is 0 for every voltage up to 2000 mV, 100 for every voltage from
  3200 mV on, lies in 0..100 for every input and is the linear interpolation on the
  interval in between; at 2600 mV it is 50.
\<close>

theorem battery_voltage_to_percentage_mapping:
  "(a \<le> b \<longrightarrow> battery_voltage_to_percentage a \<le> battery_voltage_to_percentage b)
   \<and> (v \<le> 2000 \<longrightarrow> battery_voltage_to_percentage v = 0)
   \<and> (3200 \<le> v \<longrightarrow> battery_voltage_to_percentage v = 100)
   \<and> battery_voltage_to_percentage v \<le> 100
   \<and> (2000 < v \<and> v < 3200 \<longrightarrow>
        unat (battery_voltage_to_percentage v) = (unat v - 2000) * 100 div 1200)
   \<and> battery_voltage_to_percentage 2600 = 50"
proof (intro conjI impI)
  assume "a \<le> b"
  then have "unat a \<le> unat b" by (simp add: word_le_nat_alt)
  then have "to_percent_spec (unat a) \<le> to_percent_spec (unat b)"
    by (rule to_percent_spec_mono)
  then show "battery_voltage_to_percentage a \<le> battery_voltage_to_percentage b"
    by (simp add: word_le_nat_alt battery_percentage_unat)
next
  assume "v \<le> 2000"
  then show "battery_voltage_to_percentage v = 0"
    by (simp add: battery_voltage_to_percentage_def BATTERY_VOLTAGE_MAX_MV_def
          BATTERY_VOLTAGE_MIN_MV_def word_le_nat_alt)
next
  assume "3200 \<le> v"
  then show "battery_voltage_to_percentage v = 100"
    by (simp add: battery_voltage_to_percentage_def BATTERY_VOLTAGE_MAX_MV_def)
next
  show "battery_voltage_to_percentage v \<le> 100"
    using to_percent_spec_le_100 [of "unat v"]
    by (simp add: word_le_nat_alt battery_percentage_unat)
next
  assume "2000 < v \<and> v < 3200"
  then have "2000 < unat v" "unat v < 3200" by (simp_all add: word_less_nat_alt)
  then show "unat (battery_voltage_to_percentage v) = (unat v - 2000) * 100 div 1200"
    by (simp add: battery_percentage_unat to_percent_spec_def)
next
  show "battery_voltage_to_percentage 2600 = 50"
    by (simp add: battery_voltage_to_percentage_def BATTERY_VOLTAGE_MAX_MV_def
          BATTERY_VOLTAGE_MIN_MV_def)
qed

theorem battery_voltage_to_percentage_mapping_witness:
  "(2300 :: uint16_t) \<le> 2900
   \<and> battery_voltage_to_percentage 2300 \<le> battery_voltage_to_percentage 2900
   \<and> (1800 :: uint16_t) \<le> 2000 \<and> battery_voltage_to_percentage 1800 = 0
   \<and> (3200 :: uint16_t) \<le> 3300 \<and> battery_voltage_to_percentage 3300 = 100
   \<and> (2000 :: uint16_t) < 2900 \<and> (2900 :: uint16_t) < 3200
   \<and> unat (battery_voltage_to_percentage 2900) = 75"
proof -
  have h1: "(2300 :: uint16_t) \<le> 2900" by simp
  have h2: "(1800 :: uint16_t) \<le> 2000" by simp
  have h3: "(3200 :: uint16_t) \<le> 3300" by simp
  have h4: "(2000 :: uint16_t) < 2900 \<and> (2900 :: uint16_t) < 3200" by simp
  have m: "battery_voltage_to_percentage 2300 \<le> battery_voltage_to_percentage 2900"
    using battery_voltage_to_percentage_mapping [of 2300 2900 0] h1 by blast
  have lo: "battery_voltage_to_percentage 1800 = 0"
    using battery_voltage_to_percentage_mapping [of 0 0 1800] h2 by blast
  have hi: "battery_voltage_to_percentage 3300 = 100"
    using battery_voltage_to_percentage_mapping [of 0 0 3300] h3 by blast
  have "unat (battery_voltage_to_percentage 2900) = (unat (2900 :: uint16_t) - 2000) * 100 div 1200"
    using battery_voltage_to_percentage_mapping [of 0 0 2900] h4 by blast
  then have mid: "unat (battery_voltage_to_percentage 2900) = 75" by simp
  show ?thesis using h1 h2 h3 h4 m lo hi mid by simp
qed

section \<open>Checksum\<close>

lemma crc_top_bit: "(c AND 0x80 \<noteq> 0) = bit (c :: uint8_t) 7"
proof -
  have "(c AND 2 ^ 7 = 0) = (\<not> bit c 7)" by (rule and_exp_eq_0_iff_not_bit)
  then show ?thesis by simp
qed

lemma crc_shift_xor:
  "crc_shift (r XOR e) = crc8_feed_bit 0x31 r (bit e 7) XOR push_bit 1 e"
  by (simp add: crc_shift_def crc8_feed_bit_def crc_top_bit bit_xor_iff
        xor.assoc xor.commute xor.left_commute)

lemma crc_bits_8:
  "crc_bits 8 c =
     crc_shift (crc_shift (crc_shift (crc_shift (crc_shift (crc_shift (crc_shift (crc_shift c)))))))"
  by (simp add: eval_nat_numeral)

lemma push_bit_1_push_bit: "push_bit 1 (push_bit n (e :: uint8_t)) = push_bit (Suc n) e"
  by (simp add: push_bit_eq_mult ac_simps)

lemma bit_7_push_bit: "n \<le> 7 \<Longrightarrow> bit (push_bit n (e :: uint8_t)) 7 = bit e (7 - n)"
  by (simp add: bit_push_bit_iff)

lemma crc_byte:
  "crc_bits 8 (c XOR d) = foldl (crc8_feed_bit 0x31) c (bits_msb_first d)"
proof -
  have step: "crc_shift (r XOR push_bit n d)
                = crc8_feed_bit 0x31 r (bit d (7 - n)) XOR push_bit (Suc n) d"
    if "n \<le> 7" for r n
    using that by (simp only: crc_shift_xor bit_7_push_bit push_bit_1_push_bit)
  have s0: "crc_shift (c XOR d) = crc8_feed_bit 0x31 c (bit d 7) XOR push_bit (Suc 0) d"
    using step [of 0 c] by simp
  have "(256 :: uint8_t) = 0" by simp
  then have z: "256 * d = 0" by (simp only: mult_zero_left)
  show ?thesis
    unfolding crc_bits_8 bits_msb_first_def
    apply (simp only: s0)
    apply (simp only: step list.map foldl.simps)
    apply (simp add: eval_nat_numeral z)
    done
qed

lemma crc_bytes_spec:
  "crc_bytes c ds = foldl (crc8_feed_bit 0x31) c (concat (map bits_msb_first ds))"
  by (induction ds arbitrary: c) (simp_all add: crc_byte)

lemma rx_frame: "map rx [0..<6] = [rx 0, rx 1, rx 2, rx 3, rx 4, rx (5::nat)]"
proof -
  have "[0..<6] = [0, 1, 2, 3, 4, 5::nat]" by (simp add: upt_rec)
  then show ?thesis by simp
qed

lemma sht31_read_success:
  "fst (fst (sht31_read e w)) =
     (sensorPresent w \<and> i2c_cmd_done e \<and> i2c_read_done e
      \<and> calculate_crc [i2c_rx e 0, i2c_rx e 1] = i2c_rx e 2
      \<and> calculate_crc [i2c_rx e 3, i2c_rx e 4] = i2c_rx e 5)"
  by (simp add: sht31_read_def read_fallback_def generate_fallback_values_def
        i2c_write_command_def i2c_read_data_def delay_ms_def Let_def rx_frame
        split: prod.splits)

text \<open>
  C4. The sensor checksum is the CRC-8 with polynomial \<open>0x31\<close>, initial value
  \<open>0xFF\<close>, most significant bit first, unreflected, without final xor; it maps the
  bytes \<open>0xBE, 0xEF\<close> to \<open>0x92\<close>; a read succeeds exactly when the sensor is present,
  both transfers complete, and the checksum of each pair of data bytes equals the byte
  that follows the pair.
\<close>

theorem calculate_crc_is_crc8_poly31:
  "calculate_crc ds = crc8_spec 0x31 0xFF 0x00 ds
   \<and> calculate_crc [0xBE, 0xEF] = 0x92
   \<and> fst (fst (sht31_read e w)) =
       (sensorPresent w \<and> i2c_cmd_done e \<and> i2c_read_done e
        \<and> calculate_crc [i2c_rx e 0, i2c_rx e 1] = i2c_rx e 2
        \<and> calculate_crc [i2c_rx e 3, i2c_rx e 4] = i2c_rx e 5)"
proof (intro conjI)
  show "calculate_crc ds = crc8_spec 0x31 0xFF 0x00 ds"
    by (simp add: calculate_crc_def crc8_spec_def crc_bytes_spec)
  show "calculate_crc [0xBE, 0xEF] = 0x92"
    by code_simp
  show "fst (fst (sht31_read e w)) =
       (sensorPresent w \<and> i2c_cmd_done e \<and> i2c_read_done e
        \<and> calculate_crc [i2c_rx e 0, i2c_rx e 1] = i2c_rx e 2
        \<and> calculate_crc [i2c_rx e 3, i2c_rx e 4] = i2c_rx e 5)"
    by (rule sht31_read_success)
qed

section \<open>Sensor reads\<close>

lemma raw16:
  "unat (push_bit 8 (ucast (a :: uint8_t)) OR ucast (b :: uint8_t) :: uint16_t) = unat a * 256 + unat b"
proof -
  have a8: "unat a < 2 ^ 8" using unsigned_less [of a] by simp
  have b8: "unat b < 2 ^ 8" using unsigned_less [of b] by simp
  have ua: "unat (ucast a :: uint16_t) = unat a"
    using a8 by (simp add: unsigned_ucast_eq take_bit_nat_eq_self)
  have ub: "unat (ucast b :: uint16_t) = unat b"
    using b8 by (simp add: unsigned_ucast_eq take_bit_nat_eq_self)
  have "unat a * 256 < 2 ^ 16" using a8 by simp
  then have "take_bit LENGTH(16) (push_bit 8 (unat a)) = unat a * 256"
    by (simp add: push_bit_eq_mult take_bit_nat_eq_self)
  then have pa: "unat (push_bit 8 (ucast a :: uint16_t)) = unat a * 256"
    by (simp only: unsigned_push_bit_eq ua)
  have disj: "(unat a * 256) AND unat b = 0"
  proof (rule bit_eqI)
    fix n
    have "\<not> (bit (push_bit 8 (unat a)) n \<and> bit (unat b) n)"
    proof
      assume h: "bit (push_bit 8 (unat a)) n \<and> bit (unat b) n"
      then have "8 \<le> n" by (simp add: bit_push_bit_iff)
      then have "(2::nat) ^ 8 \<le> 2 ^ n" by (simp only: power_increasing_iff one_less_numeral_iff semiring_norm)
      then have "unat b < 2 ^ n" using b8 by linarith
      then have "\<not> bit (unat b) n" by (simp add: bit_iff_odd)
      then show False using h by simp
    qed
    then show "bit (unat a * 256 AND unat b) n = bit (0::nat) n"
      by (simp add: bit_and_iff push_bit_eq_mult)
  qed
  have "unat (push_bit 8 (ucast a :: uint16_t) OR ucast b) = (unat a * 256) OR unat b"
    by (simp only: unsigned_or_eq pa ub)
  also have "\<dots> = unat a * 256 + unat b"
    using disjunctive_add_eq_or [OF disj] by simp
  finally show ?thesis .
qed

lemma read_fallback_result: "fst (fst (read_fallback e w)) = False"
  by (simp add: read_fallback_def generate_fallback_values_def Let_def)

lemma read_fallback_world:
  "snd (read_fallback e w) = w\<lparr>fallbackReadCount := fallbackReadCount w + 1\<rparr>"
  by (simp add: read_fallback_def generate_fallback_values_def Let_def)

lemma sht31_read_absent: "\<not> sensorPresent w \<Longrightarrow> sht31_read e w = read_fallback e w"
  by (simp add: sht31_read_def)

lemma sht31_read_sensorPresent:
  "sensorPresent (snd (sht31_read e w)) = (sensorPresent w \<and> i2c_cmd_done e \<and> i2c_read_done e)"
  by (simp add: sht31_read_def read_fallback_world i2c_write_command_def i2c_read_data_def
        delay_ms_def call_def Let_def split: prod.splits)

lemma sht31_read_calls:
  "calls (snd (sht31_read e w)) =
     calls w @
       (if \<not> sensorPresent w then []
        else if \<not> i2c_cmd_done e then [I2C_write SHT31_CMD_READ_MSB SHT31_CMD_READ_LSB]
        else [I2C_write SHT31_CMD_READ_MSB SHT31_CMD_READ_LSB,
              sl_sleeptimer_delay_millisecond SHT31_MEASURE_DELAY_MS, I2C_read 6])"
  by (simp add: sht31_read_def read_fallback_world i2c_write_command_def i2c_read_data_def
        delay_ms_def call_def Let_def split: prod.splits)

lemma sht31_read_appContext: "appContext (snd (sht31_read e w)) = appContext w"
  by (simp add: sht31_read_def read_fallback_world i2c_write_command_def i2c_read_data_def
        delay_ms_def call_def Let_def split: prod.splits)

lemma sht31_read_buttonContext: "buttonContext (snd (sht31_read e w)) = buttonContext w"
  by (simp add: sht31_read_def read_fallback_world i2c_write_command_def i2c_read_data_def
        delay_ms_def call_def Let_def split: prod.splits)

lemma sht31_read_failed_is_fallback:
  "\<not> fst (fst (sht31_read e w)) \<Longrightarrow>
     fst (sht31_read e w) =
       fst (read_fallback e (w\<lparr>sensorPresent := sensorPresent w \<and> i2c_cmd_done e \<and> i2c_read_done e\<rparr>))"
  by (simp add: sht31_read_def read_fallback_def generate_fallback_values_def
        i2c_write_command_def i2c_read_data_def
        delay_ms_def call_def Let_def split: prod.splits if_splits)

text \<open>
  Rounding to single precision: the error is at most half the spacing, bounds that are
  integers are kept, and integers below \<open>2 ^ 24\<close> are exact.
\<close>

lemma round_half_even_error: "\<bar>of_int (round_half_even y) - y\<bar> \<le> 1 / 2"
proof -
  have "of_int \<lfloor>y\<rfloor> \<le> y" "y < of_int \<lfloor>y\<rfloor> + 1" by linarith+
  then show ?thesis by (auto simp add: round_half_even_def Let_def)
qed

lemma round_half_even_le: "y \<le> of_int B \<Longrightarrow> round_half_even y \<le> B"
proof -
  assume b: "y \<le> of_int B"
  then have f: "\<lfloor>y\<rfloor> \<le> B" by (simp add: floor_le_iff)
  have "\<lfloor>y\<rfloor> + 1 \<le> B" if "0 < y - of_int \<lfloor>y\<rfloor>"
  proof -
    have "(of_int \<lfloor>y\<rfloor> :: real) < of_int B" using that b by linarith
    then show ?thesis by simp
  qed
  then show ?thesis using f by (auto simp add: round_half_even_def Let_def)
qed

lemma round_half_even_ge: "of_int A \<le> y \<Longrightarrow> A \<le> round_half_even y"
proof -
  assume "of_int A \<le> y"
  then have "A \<le> \<lfloor>y\<rfloor>" by (simp add: le_floor_iff)
  then show ?thesis by (auto simp add: round_half_even_def Let_def)
qed

lemma round_half_even_of_int: "round_half_even (of_int n) = n"
  by (simp add: round_half_even_def)

lemma exp_up_le: "2 powi e \<le> x \<Longrightarrow> 2 powi (exp_up n e x) \<le> x"
  by (induction n arbitrary: e) simp_all

lemma exp_down_le: "exp_down n e x \<le> e"
proof (induction n arbitrary: e)
  case 0
  then show ?case by simp
next
  case (Suc n)
  have "exp_down n (e - 1) x \<le> e - 1" by (rule Suc.IH)
  then show ?case by simp
qed

lemma f32_exponent_less:
  assumes "\<bar>x\<bar> < 2 ^ k" and "0 < k"
  shows "f32_exponent x < int k"
proof (cases "1 \<le> \<bar>x\<bar>")
  case True
  have "(2::real) powi 0 \<le> \<bar>x\<bar>" using True by simp
  then have "2 powi (exp_up 127 0 \<bar>x\<bar>) \<le> \<bar>x\<bar>" by (rule exp_up_le)
  then have "(2::real) powi (f32_exponent x) < 2 powi (int k)"
    using assms True by (simp add: f32_exponent_def)
  then show ?thesis by (rule power_int_le_imp_less_exp [rotated]) simp_all
next
  case False
  have "f32_exponent x \<le> 0" using False exp_down_le [of 126 0 "\<bar>x\<bar>"] by (simp add: f32_exponent_def)
  moreover note assms(2)
  ultimately show ?thesis by simp
qed


lemma f32_error: "\<bar>f32 x - x\<bar> \<le> 2 powi (f32_exponent x - 24)"
proof -
  define ulp :: real where "ulp = 2 powi (f32_exponent x - 23)"
  define R where "R = round_half_even (x / ulp)"
  have pos: "0 < ulp" by (simp add: ulp_def)
  have fx: "f32 x = of_int R * ulp" by (simp add: f32_def Let_def ulp_def R_def)
  have "\<bar>of_int R - x / ulp\<bar> \<le> 1 / 2"
    unfolding R_def by (rule round_half_even_error)
  then have "\<bar>of_int R - x / ulp\<bar> * ulp \<le> 1 / 2 * ulp"
    using pos by (simp only: mult_le_cancel_right_pos)
  moreover have "\<bar>of_int R - x / ulp\<bar> * ulp = \<bar>of_int R * ulp - x\<bar>"
  proof -
    have "\<bar>of_int R - x / ulp\<bar> * ulp = \<bar>(of_int R - x / ulp) * ulp\<bar>"
      using pos by (simp add: abs_mult)
    also have "(of_int R - x / ulp) * ulp = of_int R * ulp - x"
      using pos by (simp add: algebra_simps)
    finally show ?thesis .
  qed
  moreover have "1 / 2 * ulp = 2 powi (f32_exponent x - 24)"
  proof -
    have "(2::real) powi (f32_exponent x - 23) = 2 powi ((f32_exponent x - 24) + 1)" by simp
    also have "\<dots> = 2 powi (f32_exponent x - 24) * 2" by (rule power_int_add_1) simp
    finally show ?thesis by (simp add: ulp_def)
  qed
  ultimately have "\<bar>of_int R * ulp - x\<bar> \<le> 2 powi (f32_exponent x - 24)" by linarith
  then show ?thesis by (simp only: fx)
qed

lemma ulp_inverse:
  assumes "e \<le> 23"
  shows "1 / 2 powi (e - 23) = (2::real) ^ nat (23 - e)"
proof -
  have "(2::real) powi (e - 23) = 2 powi (- (23 - e))" by simp
  also have "\<dots> = 1 / 2 powi (23 - e)" by (rule power_int_minus_divide)
  also have "(2::real) powi (23 - e) = 2 ^ nat (23 - e)" using assms by (simp add: power_int_nonneg_exp)
  finally show ?thesis by simp
qed

lemma f32_scaled:
  assumes "\<bar>x\<bar> < 2 ^ 24"
  obtains ulp :: real and n :: nat
  where "0 < ulp" and "f32 x = of_int (round_half_even (x / ulp)) * ulp"
    and "\<And>c. c / ulp = c * 2 ^ n" and "\<And>c. c * 2 ^ n * ulp = c"
proof -
  define e where "e = f32_exponent x"
  define ulp :: real where "ulp = 2 powi (e - 23)"
  have e: "e \<le> 23" using f32_exponent_less [OF assms] by (simp add: e_def)
  have pos: "0 < ulp" by (simp add: ulp_def)
  have inv: "1 / ulp = 2 ^ nat (23 - e)" unfolding ulp_def by (rule ulp_inverse [OF e])
  have times: "c / ulp = c * 2 ^ nat (23 - e)" for c :: real
  proof -
    have "c / ulp = c * (1 / ulp)" by simp
    then show ?thesis by (simp only: inv)
  qed
  have unscale: "c * 2 ^ nat (23 - e) * ulp = c" for c :: real
  proof -
    have "c * 2 ^ nat (23 - e) * ulp = c / ulp * ulp" by (simp only: times)
    then show ?thesis using pos by simp
  qed
  have fx: "f32 x = of_int (round_half_even (x / ulp)) * ulp"
    by (simp add: f32_def Let_def ulp_def e_def)
  show thesis using that [OF pos fx times unscale] .
qed

lemma f32_le:
  assumes "\<bar>x\<bar> < 2 ^ 24" and "x \<le> of_int B"
  shows "f32 x \<le> of_int B"
proof -
  obtain ulp :: real and n :: nat
    where pos: "0 < ulp" and fx: "f32 x = of_int (round_half_even (x / ulp)) * ulp"
      and times: "\<And>c. c / ulp = c * 2 ^ n" and unscale: "\<And>c. c * 2 ^ n * ulp = c"
    using f32_scaled [OF assms(1)] by blast
  have "x / ulp \<le> of_int B / ulp" using assms(2) pos by (simp add: divide_right_mono)
  also have "of_int B / ulp = of_int (B * 2 ^ n)" by (simp add: times)
  finally have "round_half_even (x / ulp) \<le> B * 2 ^ n" by (rule round_half_even_le)
  then have "(of_int (round_half_even (x / ulp)) :: real) \<le> of_int (B * 2 ^ n)"
    by (simp only: of_int_le_iff)
  then have "of_int (round_half_even (x / ulp)) * ulp \<le> of_int (B * 2 ^ n) * ulp"
    using pos by (simp only: mult_le_cancel_right_pos)
  moreover have "of_int (B * 2 ^ n) * ulp = of_int B" using unscale [of "of_int B"] by simp
  ultimately show ?thesis by (simp only: fx)
qed

lemma f32_ge:
  assumes "\<bar>x\<bar> < 2 ^ 24" and "of_int A \<le> x"
  shows "of_int A \<le> f32 x"
proof -
  obtain ulp :: real and n :: nat
    where pos: "0 < ulp" and fx: "f32 x = of_int (round_half_even (x / ulp)) * ulp"
      and times: "\<And>c. c / ulp = c * 2 ^ n" and unscale: "\<And>c. c * 2 ^ n * ulp = c"
    using f32_scaled [OF assms(1)] by blast
  have "of_int A / ulp \<le> x / ulp" using assms(2) pos by (simp add: divide_right_mono)
  moreover have "of_int A / ulp = of_int (A * 2 ^ n)" by (simp add: times)
  ultimately have "of_int (A * 2 ^ n) \<le> x / ulp" by simp
  then have "A * 2 ^ n \<le> round_half_even (x / ulp)" by (rule round_half_even_ge)
  then have "(of_int (A * 2 ^ n) :: real) \<le> of_int (round_half_even (x / ulp))"
    by (simp only: of_int_le_iff)
  then have "of_int (A * 2 ^ n) * ulp \<le> of_int (round_half_even (x / ulp)) * ulp"
    using pos by (simp only: mult_le_cancel_right_pos)
  moreover have "of_int (A * 2 ^ n) * ulp = of_int A" using unscale [of "of_int A"] by simp
  ultimately show ?thesis by (simp only: fx)
qed

lemma f32_of_int:
  assumes "\<bar>of_int n :: real\<bar> < 2 ^ 24"
  shows "f32 (of_int n) = of_int n"
proof -
  have "f32 (of_int n) \<le> of_int n" using assms by (rule f32_le) simp
  moreover have "of_int n \<le> f32 (of_int n)" using assms by (rule f32_ge) simp
  ultimately show ?thesis by simp
qed

lemma f32_error_bound:
  assumes "\<bar>x\<bar> < 2 ^ k" and "0 < k"
  shows "\<bar>f32 x - x\<bar> \<le> 2 powi (int k - 25)"
proof -
  have "f32_exponent x - 24 \<le> int k - 25" using f32_exponent_less [OF assms] by simp
  then have "(2::real) powi (f32_exponent x - 24) \<le> 2 powi (int k - 25)"
    by (rule power_int_increasing) simp
  then show ?thesis using f32_error [of x] by linarith
qed

lemma f32_of_nat: "n < 2 ^ 24 \<Longrightarrow> f32 (real n) = real n"
  using f32_of_int [of "int n"] by simp

lemma raw16_le: "unat (a :: uint8_t) * 256 + unat (b :: uint8_t) \<le> 65535"
proof -
  have "unat a < 2 ^ 8" using unsigned_less [of a] by simp
  moreover have "unat b < 2 ^ 8" using unsigned_less [of b] by simp
  ultimately show ?thesis by simp
qed

text \<open>The temperature of a raw word: the product is exact, the quotient and the sum round.\<close>

lemma temperature_f32:
  assumes "n \<le> 65535"
  shows "f32_mul 175 (real n) = 175 * real n"
    and "0 \<le> f32_div (f32_mul 175 (real n)) 65535"
    and "f32_div (f32_mul 175 (real n)) 65535 \<le> 175"
    and "\<bar>f32_div (f32_mul 175 (real n)) 65535 - 175 * real n / 65535\<bar> \<le> 1 / 2 ^ 17"
    and "- 45 \<le> f32_add (- 45) (f32_div (f32_mul 175 (real n)) 65535)"
    and "f32_add (- 45) (f32_div (f32_mul 175 (real n)) 65535) \<le> 130"
    and "\<bar>f32_add (- 45) (f32_div (f32_mul 175 (real n)) 65535) - (- 45 + 175 * real n / 65535)\<bar>
           \<le> 1 / 2 ^ 16"
proof -
  have "175 * n < 2 ^ 24" using assms by simp
  then have "f32 (real (175 * n)) = real (175 * n)" by (rule f32_of_nat)
  then show p: "f32_mul 175 (real n) = 175 * real n" by (simp add: f32_mul_def)
  define q where "q = 175 * real n / 65535"
  have q0: "0 \<le> q" by (simp add: q_def)
  have q1: "q \<le> 175" using assms by (simp add: q_def)
  have qa: "\<bar>q\<bar> < 2 ^ 8" using q0 q1 by simp
  have qa24: "\<bar>q\<bar> < 2 ^ 24" using q0 q1 by simp
  have fq: "f32_div (f32_mul 175 (real n)) 65535 = f32 q" by (simp add: f32_div_def p q_def)
  have l: "0 \<le> f32 q" using f32_ge [OF qa24, of 0] q0 by simp
  have u: "f32 q \<le> 175" using f32_le [OF qa24, of 175] q1 by simp
  have "\<bar>f32 q - q\<bar> \<le> 2 powi (int 8 - 25)" by (rule f32_error_bound [OF qa]) simp
  then have eq: "\<bar>f32 q - q\<bar> \<le> 1 / 2 ^ 17" by (simp add: power_int_minus_divide)
  show "0 \<le> f32_div (f32_mul 175 (real n)) 65535" using l by (simp only: fq)
  show "f32_div (f32_mul 175 (real n)) 65535 \<le> 175" using u by (simp only: fq)
  show "\<bar>f32_div (f32_mul 175 (real n)) 65535 - 175 * real n / 65535\<bar> \<le> 1 / 2 ^ 17"
    using eq by (simp only: fq q_def)
  define s where "s = - 45 + f32 q"
  have s0: "- 45 \<le> s" using l by (simp add: s_def)
  have s1: "s \<le> 130" using u by (simp add: s_def)
  have sa: "\<bar>s\<bar> < 2 ^ 8" using s0 s1 by simp
  have sa24: "\<bar>s\<bar> < 2 ^ 24" using s0 s1 by simp
  have ft: "f32_add (- 45) (f32_div (f32_mul 175 (real n)) 65535) = f32 s"
    by (simp add: f32_add_def fq s_def)
  have tl: "- 45 \<le> f32 s" using f32_ge [OF sa24, of "- 45"] s0 by simp
  have tu: "f32 s \<le> 130" using f32_le [OF sa24, of 130] s1 by simp
  have "\<bar>f32 s - s\<bar> \<le> 2 powi (int 8 - 25)" by (rule f32_error_bound [OF sa]) simp
  then have es: "\<bar>f32 s - s\<bar> \<le> 1 / 2 ^ 17" by (simp add: power_int_minus_divide)
  show "- 45 \<le> f32_add (- 45) (f32_div (f32_mul 175 (real n)) 65535)" using tl by (simp only: ft)
  show "f32_add (- 45) (f32_div (f32_mul 175 (real n)) 65535) \<le> 130" using tu by (simp only: ft)
  have sd: "s = - 45 + f32 q" by (simp add: s_def)
  have es': "\<bar>f32 s - s\<bar> \<le> 1 / 131072" using es by simp
  have eq': "\<bar>f32 q - q\<bar> \<le> 1 / 131072" using eq by simp
  from es' eq' sd have "\<bar>f32 s - (- 45 + q)\<bar> \<le> 1 / 65536" by linarith
  then have "\<bar>f32 s - (- 45 + q)\<bar> \<le> 1 / 2 ^ 16" by simp
  then show "\<bar>f32_add (- 45) (f32_div (f32_mul 175 (real n)) 65535) - (- 45 + 175 * real n / 65535)\<bar>
           \<le> 1 / 2 ^ 16"
    by (simp only: ft q_def)
qed

lemma humidity_f32:
  assumes "n \<le> 65535"
  shows "0 \<le> f32_div (f32_mul 100 (real n)) 65535"
    and "f32_div (f32_mul 100 (real n)) 65535 \<le> 100"
    and "\<bar>f32_div (f32_mul 100 (real n)) 65535 - 100 * real n / 65535\<bar> \<le> 1 / 2 ^ 18"
proof -
  have "100 * n < 2 ^ 24" using assms by simp
  then have "f32 (real (100 * n)) = real (100 * n)" by (rule f32_of_nat)
  then have p: "f32_mul 100 (real n) = 100 * real n" by (simp add: f32_mul_def)
  define q where "q = 100 * real n / 65535"
  have q0: "0 \<le> q" by (simp add: q_def)
  have q1: "q \<le> 100" using assms by (simp add: q_def)
  have qa: "\<bar>q\<bar> < 2 ^ 7" using q0 q1 by simp
  have qa24: "\<bar>q\<bar> < 2 ^ 24" using q0 q1 by simp
  have fq: "f32_div (f32_mul 100 (real n)) 65535 = f32 q" by (simp add: f32_div_def p q_def)
  have l: "0 \<le> f32 q" using f32_ge [OF qa24, of 0] q0 by simp
  have u: "f32 q \<le> 100" using f32_le [OF qa24, of 100] q1 by simp
  have "\<bar>f32 q - q\<bar> \<le> 2 powi (int 7 - 25)" by (rule f32_error_bound [OF qa]) simp
  then have eq: "\<bar>f32 q - q\<bar> \<le> 1 / 2 ^ 18" by (simp add: power_int_minus_divide)
  show "0 \<le> f32_div (f32_mul 100 (real n)) 65535" using l by (simp only: fq)
  show "f32_div (f32_mul 100 (real n)) 65535 \<le> 100" using u by (simp only: fq)
  show "\<bar>f32_div (f32_mul 100 (real n)) 65535 - 100 * real n / 65535\<bar> \<le> 1 / 2 ^ 18"
    using eq by (simp only: fq q_def)
qed

lemma sht31_convert_frame:
  "sht31_convert [b0, b1, b2, b3, b4, b5] =
     (f32_add (- 45) (f32_div (f32_mul 175 (real (unat b0 * 256 + unat b1))) 65535),
      f32_div (f32_mul 100 (real (unat b3 * 256 + unat b4))) 65535)"
proof -
  have n: "[b0, b1, b2, b3, b4, b5] ! 0 = b0" "[b0, b1, b2, b3, b4, b5] ! 1 = b1"
    "[b0, b1, b2, b3, b4, b5] ! 3 = b3" "[b0, b1, b2, b3, b4, b5] ! 4 = b4"
    by simp_all
  note h = humidity_f32 [OF raw16_le [of b3 b4]]
  show ?thesis
    unfolding sht31_convert_def Let_def n raw16
    using h(1) h(2) by (simp only: prod.inject) auto
qed

lemma sht31_read_valid:
  assumes "sensorPresent w" "i2c_cmd_done e" "i2c_read_done e"
    "calculate_crc [i2c_rx e 0, i2c_rx e 1] = i2c_rx e 2"
    "calculate_crc [i2c_rx e 3, i2c_rx e 4] = i2c_rx e 5"
  shows "fst (sht31_read e w) =
           (True,
            f32_add (- 45)
              (f32_div (f32_mul 175 (real (unat (i2c_rx e 0) * 256 + unat (i2c_rx e 1)))) 65535),
            f32_div (f32_mul 100 (real (unat (i2c_rx e 3) * 256 + unat (i2c_rx e 4)))) 65535)"
proof -
  have "fst (sht31_read e w) =
          (True, fst (sht31_convert (map (i2c_rx e) [0..<6])), snd (sht31_convert (map (i2c_rx e) [0..<6])))"
    using assms
    by (simp add: sht31_read_def i2c_write_command_def i2c_read_data_def
        delay_ms_def call_def Let_def rx_frame split: prod.splits)
  then show ?thesis by (simp only: rx_frame sht31_convert_frame fst_conv snd_conv)
qed

lemma crc_BEEF: "calculate_crc [0xBE, 0xEF] = 0x92"
  by code_simp

lemma env_ok_simps:
  "i2c_cmd_done env_ok" "i2c_read_done env_ok" "i2c_reset_done env_ok"
  "i2c_rx env_ok 0 = 0xBE" "i2c_rx env_ok 1 = 0xEF" "i2c_rx env_ok 2 = 0x92"
  "i2c_rx env_ok 3 = 0xBE" "i2c_rx env_ok 4 = 0xEF" "i2c_rx env_ok 5 = 0x92"
  "\<not> network_joined env_ok" "steering_start_status env_ok = EMBER_SUCCESS"
  "adcResult env_ok = 2800" "time_ms env_ok = 0" "\<not> pin_pressed env_ok"
  "i2c_rx env_ok (Suc 0) = 0xEF"
  by (simp_all add: env_ok_def)

lemma world_sensor_found_simps:
  "sensorPresent world_sensor_found"
  "sensorInitialized (appContext world_sensor_found)"
  "state (appContext world_sensor_found) = APP_STATE_INIT"
  "\<not> fastPollActive (appContext world_sensor_found)"
  "calls world_sensor_found = []"
  by (simp_all add: world_sensor_found_def world_init_def appContext_init_def)

lemma frame_BEEF_f32:
  "f32_add (- 45) (f32_div (f32_mul 175 48879) 65535) = 1401209 / 16384"
  "f32_div (f32_mul 100 48879) 65535 = 9775949 / 131072"
  by code_simp+

lemma env_ok_raw:
  "real (unat (i2c_rx env_ok 0) * 256 + unat (i2c_rx env_ok 1)) = 48879"
  "real (unat (i2c_rx env_ok 3) * 256 + unat (i2c_rx env_ok 4)) = 48879"
  by (simp_all add: env_ok_simps)

text \<open>
  C3, as claimed, fails in the equality: for the frame \<open>BE EF 92 BE EF 92\<close>
  (\<open>T_raw = 48879\<close>) the temperature returned is the single-precision result
  \<open>1401209 / 16384\<close>, not the exact \<open>-45 + 175 * 48879 / 65535\<close>.
\<close>

theorem sht31_read_exact_formula_counterexample:
  "sensorPresent world_sensor_found \<and> i2c_cmd_done env_ok \<and> i2c_read_done env_ok
   \<and> calculate_crc [i2c_rx env_ok 0, i2c_rx env_ok 1] = i2c_rx env_ok 2
   \<and> calculate_crc [i2c_rx env_ok 3, i2c_rx env_ok 4] = i2c_rx env_ok 5
   \<and> unat (i2c_rx env_ok 0) * 256 + unat (i2c_rx env_ok 1) = 48879
   \<and> fst (snd (fst (sht31_read env_ok world_sensor_found))) = 1401209 / 16384
   \<and> fst (snd (fst (sht31_read env_ok world_sensor_found))) \<noteq> - 45 + 175 * 48879 / 65535"
proof -
  have c1: "calculate_crc [i2c_rx env_ok 0, i2c_rx env_ok 1] = i2c_rx env_ok 2"
    by (simp only: env_ok_simps crc_BEEF)
  have c2: "calculate_crc [i2c_rx env_ok 3, i2c_rx env_ok 4] = i2c_rx env_ok 5"
    by (simp only: env_ok_simps crc_BEEF)
  have raw: "unat (i2c_rx env_ok 0) * 256 + unat (i2c_rx env_ok 1) = 48879"
    by (simp add: env_ok_simps)
  have "fst (snd (fst (sht31_read env_ok world_sensor_found)))
          = f32_add (- 45) (f32_div (f32_mul 175 48879) 65535)"
    by (simp only: sht31_read_valid [OF world_sensor_found_simps(1) env_ok_simps(1) env_ok_simps(2) c1 c2]
          env_ok_raw fst_conv snd_conv)
  then have t: "fst (snd (fst (sht31_read env_ok world_sensor_found))) = 1401209 / 16384"
    by (simp only: frame_BEEF_f32)
  have ne: "(1401209 / 16384 :: real) \<noteq> - 45 + 175 * 48879 / 65535" by simp
  show ?thesis
    using world_sensor_found_simps(1) env_ok_simps(1) env_ok_simps(2) c1 c2 raw t ne
    by (simp only: simp_thms)
qed

text \<open>
  C3, amended. A six-byte frame read from a present sensor (both transfers complete) whose
  two checksums verify makes \<open>sht31_read\<close> return \<open>true\<close> with \<open>t_c\<close> the single-precision
  evaluation of \<open>-45 + 175 * T_raw / 65535\<close> (product, quotient and sum each rounded to
  nearest) and \<open>h\<close> that of \<open>100 * H_raw / 65535\<close>, clamped to \<open>[0, 100]\<close>, where
  \<open>T_raw = b0 * 256 + b1\<close> and \<open>H_raw = b3 * 256 + b4\<close>. \<open>t_c\<close> is within \<open>2 ^ -16\<close> of the
  exact \<open>-45 + 175 * T_raw / 65535\<close> and \<open>h\<close> within \<open>2 ^ -18\<close> of the exact clamped
  \<open>100 * H_raw / 65535\<close>; the temperature lies in \<open>[-45, 130]\<close> and the humidity in
  \<open>[0, 100]\<close>.
\<close>

theorem sht31_read_valid_frame:
  assumes "sensorPresent w" and "i2c_cmd_done e" and "i2c_read_done e"
    and "calculate_crc [i2c_rx e 0, i2c_rx e 1] = i2c_rx e 2"
    and "calculate_crc [i2c_rx e 3, i2c_rx e 4] = i2c_rx e 5"
  shows "case fst (sht31_read e w) of (real_reading, t_c, h) \<Rightarrow>
           real_reading
           \<and> t_c = f32_add (- 45)
                    (f32_div (f32_mul 175 (real (unat (i2c_rx e 0) * 256 + unat (i2c_rx e 1)))) 65535)
           \<and> h = max 0 (min 100
                    (f32_div (f32_mul 100 (real (unat (i2c_rx e 3) * 256 + unat (i2c_rx e 4)))) 65535))
           \<and> \<bar>t_c - (- 45 + 175 * real (unat (i2c_rx e 0) * 256 + unat (i2c_rx e 1)) / 65535)\<bar>
               \<le> 1 / 2 ^ 16
           \<and> \<bar>h - max 0 (min 100 (100 * real (unat (i2c_rx e 3) * 256 + unat (i2c_rx e 4)) / 65535))\<bar>
               \<le> 1 / 2 ^ 18
           \<and> - 45 \<le> t_c \<and> t_c \<le> 130 \<and> 0 \<le> h \<and> h \<le> 100"
proof -
  define T where "T = unat (i2c_rx e 0) * 256 + unat (i2c_rx e 1)"
  define H where "H = unat (i2c_rx e 3) * 256 + unat (i2c_rx e 4)"
  have T: "T \<le> 65535" unfolding T_def by (rule raw16_le)
  have H: "H \<le> 65535" unfolding H_def by (rule raw16_le)
  note t = temperature_f32 [OF T]
  note h = humidity_f32 [OF H]
  have exact: "max 0 (min 100 (100 * real H / 65535)) = 100 * real H / 65535"
    using H by simp
  have clamp: "max 0 (min 100 (f32_div (f32_mul 100 (real H)) 65535))
                 = f32_div (f32_mul 100 (real H)) 65535"
    using h(1) h(2) by simp
  have r: "fst (sht31_read e w) =
             (True, f32_add (- 45) (f32_div (f32_mul 175 (real T)) 65535),
              f32_div (f32_mul 100 (real H)) 65535)"
    unfolding T_def H_def by (rule sht31_read_valid [OF assms])
  show ?thesis
    unfolding r T_def [symmetric] H_def [symmetric] prod.case exact clamp
    using t(5) t(6) t(7) h(1) h(2) h(3) by simp
qed

theorem sht31_read_valid_frame_witness:
  "sensorPresent world_sensor_found \<and> i2c_cmd_done env_ok \<and> i2c_read_done env_ok
   \<and> calculate_crc [i2c_rx env_ok 0, i2c_rx env_ok 1] = i2c_rx env_ok 2
   \<and> calculate_crc [i2c_rx env_ok 3, i2c_rx env_ok 4] = i2c_rx env_ok 5
   \<and> (case fst (sht31_read env_ok world_sensor_found) of (real_reading, t_c, h) \<Rightarrow>
         real_reading \<and> t_c = 1401209 / 16384 \<and> h = 9775949 / 131072
         \<and> \<bar>t_c - (- 45 + 175 * 48879 / 65535)\<bar> \<le> 1 / 2 ^ 16
         \<and> \<bar>h - 100 * 48879 / 65535\<bar> \<le> 1 / 2 ^ 18)"
proof -
  have c1: "calculate_crc [i2c_rx env_ok 0, i2c_rx env_ok 1] = i2c_rx env_ok 2"
    by (simp only: env_ok_simps crc_BEEF)
  have c2: "calculate_crc [i2c_rx env_ok 3, i2c_rx env_ok 4] = i2c_rx env_ok 5"
    by (simp only: env_ok_simps crc_BEEF)
  obtain real_reading t_c h where r: "fst (sht31_read env_ok world_sensor_found) = (real_reading, t_c, h)"
    by (cases "fst (sht31_read env_ok world_sensor_found)") auto
  note th = sht31_read_valid_frame
              [OF world_sensor_found_simps(1) env_ok_simps(1) env_ok_simps(2) c1 c2]
  have "real_reading
           \<and> t_c = f32_add (- 45) (f32_div (f32_mul 175 48879) 65535)
           \<and> h = max 0 (min 100 (f32_div (f32_mul 100 48879) 65535))
           \<and> \<bar>t_c - (- 45 + 175 * 48879 / 65535)\<bar> \<le> 1 / 2 ^ 16
           \<and> \<bar>h - max 0 (min 100 (100 * 48879 / 65535))\<bar> \<le> 1 / 2 ^ 18
           \<and> - 45 \<le> t_c \<and> t_c \<le> 130 \<and> 0 \<le> h \<and> h \<le> 100"
    using th unfolding r prod.case env_ok_raw .
  then have "real_reading \<and> t_c = 1401209 / 16384 \<and> h = 9775949 / 131072
         \<and> \<bar>t_c - (- 45 + 175 * 48879 / 65535)\<bar> \<le> 1 / 2 ^ 16
         \<and> \<bar>h - 100 * 48879 / 65535\<bar> \<le> 1 / 2 ^ 18"
    by (simp add: frame_BEEF_f32)
  then have "case fst (sht31_read env_ok world_sensor_found) of (real_reading, t_c, h) \<Rightarrow>
         real_reading \<and> t_c = 1401209 / 16384 \<and> h = 9775949 / 131072
         \<and> \<bar>t_c - (- 45 + 175 * 48879 / 65535)\<bar> \<le> 1 / 2 ^ 16
         \<and> \<bar>h - 100 * 48879 / 65535\<bar> \<le> 1 / 2 ^ 18"
    unfolding r prod.case .
  then show ?thesis
    using c1 c2 world_sensor_found_simps(1) env_ok_simps(1) env_ok_simps(2) by blast
qed

lemma sht31_reads_absent:
  "\<not> sensorPresent v \<Longrightarrow>
     \<not> sensorPresent (snd (sht31_reads es v))
     \<and> calls (snd (sht31_reads es v)) = calls v
     \<and> (\<forall>r \<in> set (fst (sht31_reads es v)). \<not> fst r)"
proof (induction es arbitrary: v)
  case Nil
  then show ?case by simp
next
  case (Cons e es)
  let ?v1 = "snd (sht31_read e v)"
  have a: "\<not> sensorPresent ?v1" using Cons.prems by (simp add: sht31_read_sensorPresent)
  have c: "calls ?v1 = calls v" using Cons.prems by (simp add: sht31_read_calls)
  have r: "\<not> fst (fst (sht31_read e v))" using Cons.prems by (simp add: sht31_read_success)
  have unf: "sht31_reads (e # es) v =
               (fst (sht31_read e v) # fst (sht31_reads es ?v1), snd (sht31_reads es ?v1))"
    by (simp add: split_beta Let_def)
  show ?case
    using Cons.IH [OF a] c r unfolding unf by simp
qed

text \<open>
  C5. On a present sensor, a failed transfer in \<open>sht31_read\<close> (the command write or the
  six-byte read) returns the synthetic fallback and clears \<open>sensorPresent\<close>; from then on
  every read, whatever the bus would answer, returns the fallback, makes no I2C call and
  leaves \<open>sensorPresent\<close> cleared. A checksum mismatch (temperature or humidity) returns
  the fallback for that read only: \<open>sensorPresent\<close> stays set and the next read issues
  the measurement command on the bus again.
\<close>

theorem sht31_read_failure_policy:
  assumes "sensorPresent w"
  shows "(\<not> i2c_cmd_done e \<or> \<not> i2c_read_done e \<longrightarrow>
            \<not> fst (fst (sht31_read e w))
            \<and> fst (sht31_read e w) = fst (read_fallback e w)
            \<and> \<not> sensorPresent (snd (sht31_read e w))
            \<and> (\<forall>es. \<not> sensorPresent (snd (sht31_reads es (snd (sht31_read e w))))
                    \<and> calls (snd (sht31_reads es (snd (sht31_read e w))))
                        = calls (snd (sht31_read e w))
                    \<and> (\<forall>r \<in> set (fst (sht31_reads es (snd (sht31_read e w)))). \<not> fst r))
            \<and> (\<forall>e' v. \<not> sensorPresent v \<longrightarrow> sht31_read e' v = read_fallback e' v))
       \<and> (i2c_cmd_done e \<and> i2c_read_done e
            \<and> (calculate_crc [i2c_rx e 0, i2c_rx e 1] \<noteq> i2c_rx e 2
                \<or> calculate_crc [i2c_rx e 3, i2c_rx e 4] \<noteq> i2c_rx e 5) \<longrightarrow>
            \<not> fst (fst (sht31_read e w))
            \<and> fst (sht31_read e w) = fst (read_fallback e w)
            \<and> sensorPresent (snd (sht31_read e w))
            \<and> (\<forall>e'. calls (snd (sht31_read e' (snd (sht31_read e w))))
                      = calls (snd (sht31_read e w))
                        @ (if i2c_cmd_done e'
                           then [I2C_write SHT31_CMD_READ_MSB SHT31_CMD_READ_LSB,
                                 sl_sleeptimer_delay_millisecond SHT31_MEASURE_DELAY_MS,
                                 I2C_read 6]
                           else [I2C_write SHT31_CMD_READ_MSB SHT31_CMD_READ_LSB])))"
proof (intro conjI impI)
  assume f: "\<not> i2c_cmd_done e \<or> \<not> i2c_read_done e"
  then show r: "\<not> fst (fst (sht31_read e w))" by (auto simp add: sht31_read_success)
  have fb: "fst (read_fallback e (w\<lparr>sensorPresent := b\<rparr>)) = fst (read_fallback e w)" for b
    by (simp add: read_fallback_def generate_fallback_values_def Let_def)
  show "fst (sht31_read e w) = fst (read_fallback e w)"
    using sht31_read_failed_is_fallback [OF r] by (simp only: fb)
  show a: "\<not> sensorPresent (snd (sht31_read e w))"
    using f by (auto simp add: sht31_read_sensorPresent)
  show "\<forall>es. \<not> sensorPresent (snd (sht31_reads es (snd (sht31_read e w))))
                    \<and> calls (snd (sht31_reads es (snd (sht31_read e w))))
                        = calls (snd (sht31_read e w))
                    \<and> (\<forall>r \<in> set (fst (sht31_reads es (snd (sht31_read e w)))). \<not> fst r)"
    using sht31_reads_absent [OF a] by blast
  show "\<forall>e' v. \<not> sensorPresent v \<longrightarrow> sht31_read e' v = read_fallback e' v"
    by (simp add: sht31_read_absent)
next
  assume m: "i2c_cmd_done e \<and> i2c_read_done e
            \<and> (calculate_crc [i2c_rx e 0, i2c_rx e 1] \<noteq> i2c_rx e 2
                \<or> calculate_crc [i2c_rx e 3, i2c_rx e 4] \<noteq> i2c_rx e 5)"
  then show r: "\<not> fst (fst (sht31_read e w))" by (auto simp add: sht31_read_success)
  have fb: "fst (read_fallback e (w\<lparr>sensorPresent := b\<rparr>)) = fst (read_fallback e w)" for b
    by (simp add: read_fallback_def generate_fallback_values_def Let_def)
  show "fst (sht31_read e w) = fst (read_fallback e w)"
    using sht31_read_failed_is_fallback [OF r] by (simp only: fb)
  show p: "sensorPresent (snd (sht31_read e w))"
    using m assms by (simp add: sht31_read_sensorPresent)
  show "\<forall>e'. calls (snd (sht31_read e' (snd (sht31_read e w))))
                      = calls (snd (sht31_read e w))
                        @ (if i2c_cmd_done e'
                           then [I2C_write SHT31_CMD_READ_MSB SHT31_CMD_READ_LSB,
                                 sl_sleeptimer_delay_millisecond SHT31_MEASURE_DELAY_MS,
                                 I2C_read 6]
                           else [I2C_write SHT31_CMD_READ_MSB SHT31_CMD_READ_LSB])"
    using p by (simp add: sht31_read_calls [of _ "snd (sht31_read e w)"])
qed

theorem sht31_read_failure_policy_witness:
  "sensorPresent world_sensor_found
   \<and> \<not> i2c_read_done env_read_fails
   \<and> \<not> fst (fst (sht31_read env_read_fails world_sensor_found))
   \<and> \<not> sensorPresent (snd (sht31_read env_read_fails world_sensor_found))
   \<and> calls (snd (sht31_reads [env_ok, env_ok] (snd (sht31_read env_read_fails world_sensor_found))))
       = calls (snd (sht31_read env_read_fails world_sensor_found))
   \<and> i2c_cmd_done env_bad_crc \<and> i2c_read_done env_bad_crc
   \<and> calculate_crc [i2c_rx env_bad_crc 0, i2c_rx env_bad_crc 1] \<noteq> i2c_rx env_bad_crc 2
   \<and> \<not> fst (fst (sht31_read env_bad_crc world_sensor_found))
   \<and> sensorPresent (snd (sht31_read env_bad_crc world_sensor_found))
   \<and> calls (snd (sht31_read env_ok (snd (sht31_read env_bad_crc world_sensor_found))))
       = calls (snd (sht31_read env_bad_crc world_sensor_found))
         @ [I2C_write SHT31_CMD_READ_MSB SHT31_CMD_READ_LSB,
            sl_sleeptimer_delay_millisecond SHT31_MEASURE_DELAY_MS, I2C_read 6]"
proof -
  have p: "sensorPresent world_sensor_found" by (rule world_sensor_found_simps(1))
  have f0: "\<not> i2c_read_done env_read_fails"
    by (simp add: env_read_fails_def)
  then have f: "\<not> i2c_cmd_done env_read_fails \<or> \<not> i2c_read_done env_read_fails" ..
  have b: "i2c_cmd_done env_bad_crc \<and> i2c_read_done env_bad_crc"
    by (simp add: env_bad_crc_def env_ok_simps)
  have "i2c_rx env_bad_crc 0 = 0xBE" "i2c_rx env_bad_crc 1 = 0xEF" "i2c_rx env_bad_crc 2 = 0x93"
    by (simp_all add: env_bad_crc_def)
  then have c: "calculate_crc [i2c_rx env_bad_crc 0, i2c_rx env_bad_crc 1] \<noteq> i2c_rx env_bad_crc 2"
    by (simp only: crc_BEEF) simp
  have ok: "i2c_cmd_done env_ok" by (rule env_ok_simps(1))
  note t1 = sht31_read_failure_policy [OF p, of env_read_fails, THEN conjunct1, rule_format, OF f]
  note t2 = sht31_read_failure_policy [OF p, of env_bad_crc, THEN conjunct2, rule_format,
      OF conjI [OF conjunct1 [OF b] conjI [OF conjunct2 [OF b] disjI1 [OF c]]]]
  have n: "calls (snd (sht31_read env_ok (snd (sht31_read env_bad_crc world_sensor_found))))
       = calls (snd (sht31_read env_bad_crc world_sensor_found))
         @ [I2C_write SHT31_CMD_READ_MSB SHT31_CMD_READ_LSB,
            sl_sleeptimer_delay_millisecond SHT31_MEASURE_DELAY_MS, I2C_read 6]"
    using t2 ok by simp
  show ?thesis
    using p f0 b c t1 t2 n by blast
qed

section \<open>Fast poll\<close>

text \<open>
  C7. \<open>app_set_fast_poll\<close> is idempotent: a second call with the same argument changes
  nothing, neither the state nor the log of stack calls. Starting with fast poll off, two
  calls with \<open>true\<close> issue the wake-timeout write (2 quarter seconds) and the add-task
  call exactly once; starting with fast poll on, two calls with \<open>false\<close> issue the
  wake-timeout write (30 quarter seconds) and the remove-task call exactly once.
\<close>

theorem app_set_fast_poll_idempotent:
  "app_set_fast_poll enable (app_set_fast_poll enable w) = app_set_fast_poll enable w
   \<and> (\<not> fastPollActive (appContext w) \<longrightarrow>
        calls (app_set_fast_poll True (app_set_fast_poll True w)) =
          calls w @ [emberAfSetWakeTimeoutQsCallback APP_FAST_POLL_INTERVAL_QS,
                     emberAfAddToCurrentAppTasksCallback])
   \<and> (fastPollActive (appContext w) \<longrightarrow>
        calls (app_set_fast_poll False (app_set_fast_poll False w)) =
          calls w @ [emberAfSetWakeTimeoutQsCallback APP_NORMAL_POLL_INTERVAL_QS,
                     emberAfRemoveFromCurrentAppTasksCallback])
   \<and> APP_FAST_POLL_INTERVAL_QS = 2 \<and> APP_NORMAL_POLL_INTERVAL_QS = 30"
  by (simp add: app_set_fast_poll_def call_def Let_def APP_FAST_POLL_INTERVAL_QS_def
        APP_NORMAL_POLL_INTERVAL_QS_def)

theorem app_set_fast_poll_idempotent_witness:
  "\<not> fastPollActive (appContext world_sensor_found)
   \<and> calls (app_set_fast_poll True (app_set_fast_poll True world_sensor_found)) =
       [emberAfSetWakeTimeoutQsCallback 2, emberAfAddToCurrentAppTasksCallback]
   \<and> fastPollActive (appContext (app_set_fast_poll True world_sensor_found))
   \<and> calls (app_set_fast_poll False (app_set_fast_poll False (app_set_fast_poll True world_sensor_found))) =
       [emberAfSetWakeTimeoutQsCallback 2, emberAfAddToCurrentAppTasksCallback,
        emberAfSetWakeTimeoutQsCallback 30, emberAfRemoveFromCurrentAppTasksCallback]"
proof -
  have n: "\<not> fastPollActive (appContext world_sensor_found)"
    by (rule world_sensor_found_simps(4))
  have a: "fastPollActive (appContext (app_set_fast_poll True world_sensor_found))"
    using n by (simp add: app_set_fast_poll_def call_def Let_def)
  have c1: "calls (app_set_fast_poll True world_sensor_found) =
              [emberAfSetWakeTimeoutQsCallback 2, emberAfAddToCurrentAppTasksCallback]"
    using n by (simp add: app_set_fast_poll_def call_def Let_def world_sensor_found_simps
          APP_FAST_POLL_INTERVAL_QS_def)
  have t1: "calls (app_set_fast_poll True (app_set_fast_poll True world_sensor_found)) =
       [emberAfSetWakeTimeoutQsCallback 2, emberAfAddToCurrentAppTasksCallback]"
  proof -
    from app_set_fast_poll_idempotent [of True world_sensor_found] n
    have "calls (app_set_fast_poll True (app_set_fast_poll True world_sensor_found)) =
          calls world_sensor_found @ [emberAfSetWakeTimeoutQsCallback APP_FAST_POLL_INTERVAL_QS,
                     emberAfAddToCurrentAppTasksCallback]" by blast
    then show ?thesis
      by (simp add: world_sensor_found_simps APP_FAST_POLL_INTERVAL_QS_def)
  qed
  have t2: "calls (app_set_fast_poll False (app_set_fast_poll False (app_set_fast_poll True world_sensor_found))) =
       [emberAfSetWakeTimeoutQsCallback 2, emberAfAddToCurrentAppTasksCallback,
        emberAfSetWakeTimeoutQsCallback 30, emberAfRemoveFromCurrentAppTasksCallback]"
  proof -
    from app_set_fast_poll_idempotent [of False "app_set_fast_poll True world_sensor_found"] a
    have "calls (app_set_fast_poll False (app_set_fast_poll False (app_set_fast_poll True world_sensor_found))) =
          calls (app_set_fast_poll True world_sensor_found)
            @ [emberAfSetWakeTimeoutQsCallback APP_NORMAL_POLL_INTERVAL_QS,
               emberAfRemoveFromCurrentAppTasksCallback]" by blast
    then show ?thesis
      by (simp add: c1 APP_NORMAL_POLL_INTERVAL_QS_def)
  qed
  show ?thesis using n a t1 t2 by blast
qed

section \<open>Basic cluster bring-up\<close>

text \<open>
  C9. At bring-up of the Basic cluster the power-source attribute is written once. The
  value written is \<open>0x01\<close> (single-phase mains), which is not the battery value the
  claim and the source's own comment call for.
\<close>

theorem basic_cluster_init_power_source:
  "calls (emberAfBasicClusterServerInitCallback endpoint w) =
     calls w @
       [emberAfWriteServerAttribute endpoint ZCL_BASIC_CLUSTER_ID ZCL_MANUFACTURER_NAME_ATTRIBUTE_ID
          (DataString ''faronov'') ZCL_CHAR_STRING_ATTRIBUTE_TYPE,
        emberAfWriteServerAttribute endpoint ZCL_BASIC_CLUSTER_ID ZCL_MODEL_IDENTIFIER_ATTRIBUTE_ID
          (DataString ''EFR32MG1-SED-SHT31'') ZCL_CHAR_STRING_ATTRIBUTE_TYPE,
        emberAfWriteServerAttribute endpoint ZCL_BASIC_CLUSTER_ID ZCL_DATE_CODE_ATTRIBUTE_ID
          (DataString ''20260208'') ZCL_CHAR_STRING_ATTRIBUTE_TYPE,
        emberAfWriteServerAttribute endpoint ZCL_BASIC_CLUSTER_ID ZCL_SW_BUILD_ID_ATTRIBUTE_ID
          (DataString ''1.0.0'') ZCL_CHAR_STRING_ATTRIBUTE_TYPE,
        emberAfWriteServerAttribute endpoint ZCL_BASIC_CLUSTER_ID ZCL_HW_VERSION_ATTRIBUTE_ID
          (Data8 1) ZCL_INT8U_ATTRIBUTE_TYPE,
        emberAfWriteServerAttribute endpoint ZCL_BASIC_CLUSTER_ID ZCL_ZCL_VERSION_ATTRIBUTE_ID
          (Data8 3) ZCL_INT8U_ATTRIBUTE_TYPE,
        emberAfWriteServerAttribute endpoint ZCL_BASIC_CLUSTER_ID ZCL_POWER_SOURCE_ATTRIBUTE_ID
          (Data8 0x01) ZCL_ENUM8_ATTRIBUTE_TYPE]
   \<and> Data8 0x01 \<noteq> Data8 EMBER_ZCL_POWER_SOURCE_BATTERY"
  by (simp add: emberAfBasicClusterServerInitCallback_def call_def Let_def
        APP_MANUFACTURER_NAME_def APP_MODEL_IDENTIFIER_def APP_DATE_CODE_def APP_SW_BUILD_ID_def
        APP_HW_VERSION_def APP_ZCL_VERSION_def EMBER_ZCL_POWER_SOURCE_SINGLE_PHASE_MAINS_def
        EMBER_ZCL_POWER_SOURCE_BATTERY_def)

section \<open>Frame properties of the application\<close>

lemma set_state_simps:
  "state (appContext (set_state s w)) = s"
  "fastPollActive (appContext (set_state s w)) = fastPollActive (appContext w)"
  "joinAttempts (appContext (set_state s w)) = joinAttempts (appContext w)"
  "sensorInitialized (appContext (set_state s w)) = sensorInitialized (appContext w)"
  "sensorPresent (set_state s w) = sensorPresent w"
  "calls (set_state s w) = calls w"
  "buttonContext (set_state s w) = buttonContext w"
  by (simp_all add: set_state_def)

lemma call_simps:
  "appContext (call c w) = appContext w"
  "sensorPresent (call c w) = sensorPresent w"
  "calls (call c w) = calls w @ [c]"
  "buttonContext (call c w) = buttonContext w"
  by (simp_all add: call_def)

lemma app_set_fast_poll_simps:
  "state (appContext (app_set_fast_poll b w)) = state (appContext w)"
  "joinAttempts (appContext (app_set_fast_poll b w)) = joinAttempts (appContext w)"
  "sensorInitialized (appContext (app_set_fast_poll b w)) = sensorInitialized (appContext w)"
  "sensorPresent (app_set_fast_poll b w) = sensorPresent w"
  "fastPollActive (appContext (app_set_fast_poll b w)) = b"
  by (simp_all add: app_set_fast_poll_def call_def Let_def)

lemma app_update_sensor_data_unfold:
  "app_update_sensor_data e w =
     (if fst (fst (sht31_read e w)) \<or> \<not> sensorInitialized (appContext w)
      then call (emberAfWriteServerAttribute APP_ENDPOINT
                   ZCL_RELATIVE_HUMIDITY_MEASUREMENT_CLUSTER_ID
                   ZCL_RELATIVE_HUMIDITY_MEASURED_VALUE_ATTRIBUTE_ID
                   (Data16 (word_of_int (float_to_int (f32_mul (snd (snd (fst (sht31_read e w)))) 100))))
                   ZCL_INT16U_ATTRIBUTE_TYPE)
             (call (emberAfWriteServerAttribute APP_ENDPOINT
                      ZCL_TEMP_MEASUREMENT_CLUSTER_ID
                      ZCL_TEMP_MEASURED_VALUE_ATTRIBUTE_ID
                      (Data16 (word_of_int (float_to_int (f32_mul (fst (snd (fst (sht31_read e w)))) 100))))
                      ZCL_INT16S_ATTRIBUTE_TYPE)
                (snd (sht31_read e w)))
      else snd (sht31_read e w))"
  by (simp add: app_update_sensor_data_def split_beta Let_def sht31_read_appContext)

lemma app_update_sensor_data_appContext:
  "appContext (app_update_sensor_data e w) = appContext w"
  by (simp add: app_update_sensor_data_unfold call_simps sht31_read_appContext)

lemma app_update_sensor_data_buttonContext:
  "buttonContext (app_update_sensor_data e w) = buttonContext w"
  by (simp add: app_update_sensor_data_unfold call_simps sht31_read_buttonContext)

lemma app_update_sensor_data_sensorPresent:
  "sensorPresent (app_update_sensor_data e w) = (sensorPresent w \<and> i2c_cmd_done e \<and> i2c_read_done e)"
  by (simp add: app_update_sensor_data_unfold call_simps sht31_read_sensorPresent)

lemma app_update_battery_data_simps:
  "appContext (app_update_battery_data e w) = appContext w"
  "sensorPresent (app_update_battery_data e w) = sensorPresent w"
  by (simp_all add: app_update_battery_data_def call_def Let_def)

lemma app_start_join_simps:
  "joinAttempts (appContext (app_start_join e w)) = joinAttempts (appContext w)"
  "sensorInitialized (appContext (app_start_join e w)) = sensorInitialized (appContext w)"
  "fastPollActive (appContext (app_start_join e w)) = fastPollActive (appContext w)"
  "sensorPresent (app_start_join e w) = sensorPresent w"
  "filter is_sensor_write (calls (app_start_join e w)) = filter is_sensor_write (calls w)"
  by (simp_all add: app_start_join_def set_state_simps call_simps Let_def)

lemma app_set_fast_poll_sensor_writes:
  "filter is_sensor_write (calls (app_set_fast_poll b w)) = filter is_sensor_write (calls w)"
  by (simp add: app_set_fast_poll_def call_def Let_def)

lemma app_leave_network_simps:
  "joinAttempts (appContext (app_leave_network e w)) = joinAttempts (appContext w)"
  "sensorInitialized (appContext (app_leave_network e w)) = sensorInitialized (appContext w)"
  "sensorPresent (app_leave_network e w) = sensorPresent w"
  "filter is_sensor_write (calls (app_leave_network e w)) = filter is_sensor_write (calls w)"
  by (simp_all add: app_leave_network_def set_state_simps call_simps app_set_fast_poll_simps
        app_set_fast_poll_sensor_writes Let_def)

lemma app_update_battery_data_sensor_writes:
  "filter is_sensor_write (calls (app_update_battery_data e w)) = filter is_sensor_write (calls w)"
  by (simp add: app_update_battery_data_def call_def Let_def)

lemma app_update_sensor_data_demoted:
  "sensorInitialized (appContext w) \<Longrightarrow> \<not> sensorPresent w \<Longrightarrow>
     calls (app_update_sensor_data e w) = calls w"
  by (simp add: app_update_sensor_data_unfold sht31_read_success sht31_read_calls)

lemma app_trigger_sensor_read_simps:
  "appContext (app_trigger_sensor_read e w) = appContext w"
  "sensorPresent (app_trigger_sensor_read e w) = (sensorPresent w \<and> i2c_cmd_done e \<and> i2c_read_done e)"
  by (simp_all add: app_trigger_sensor_read_def app_update_battery_data_simps
        app_update_sensor_data_appContext app_update_sensor_data_sensorPresent)

lemma app_trigger_sensor_read_demoted:
  "sensorInitialized (appContext w) \<Longrightarrow> \<not> sensorPresent w \<Longrightarrow>
     filter is_sensor_write (calls (app_trigger_sensor_read e w)) = filter is_sensor_write (calls w)"
  by (simp add: app_trigger_sensor_read_def app_update_battery_data_sensor_writes
        app_update_sensor_data_demoted)

lemma short_press_simps:
  "joinAttempts (appContext (app_button_short_press e w)) = joinAttempts (appContext w)"
  "sensorInitialized (appContext (app_button_short_press e w)) = sensorInitialized (appContext w)"
  "sensorPresent (app_button_short_press e w) \<Longrightarrow> sensorPresent w"
  by (simp_all add: app_button_short_press_def app_start_join_simps app_trigger_sensor_read_simps
        call_simps Let_def split: if_splits)

lemma short_press_demoted:
  "sensorInitialized (appContext w) \<Longrightarrow> \<not> sensorPresent w \<Longrightarrow>
     filter is_sensor_write (calls (app_button_short_press e w)) = filter is_sensor_write (calls w)"
  by (simp add: app_button_short_press_def app_start_join_simps app_trigger_sensor_read_demoted
        call_simps Let_def)

lemma long_press_simps:
  "joinAttempts (appContext (app_button_long_press e w)) = joinAttempts (appContext w)"
  "sensorInitialized (appContext (app_button_long_press e w)) = sensorInitialized (appContext w)"
  "sensorPresent (app_button_long_press e w) = sensorPresent w"
  "filter is_sensor_write (calls (app_button_long_press e w)) = filter is_sensor_write (calls w)"
  by (simp_all add: app_button_long_press_def app_start_join_simps app_leave_network_simps)

lemma run_button_callback_simps:
  "joinAttempts (appContext (run_button_callback e cb w)) = joinAttempts (appContext w)"
  "sensorInitialized (appContext (run_button_callback e cb w)) = sensorInitialized (appContext w)"
  "sensorPresent (run_button_callback e cb w) \<Longrightarrow> sensorPresent w"
  by (cases cb; simp add: short_press_simps long_press_simps)+

lemma run_button_callback_demoted:
  "sensorInitialized (appContext w) \<Longrightarrow> \<not> sensorPresent w \<Longrightarrow>
     filter is_sensor_write (calls (run_button_callback e cb w)) = filter is_sensor_write (calls w)"
  by (cases cb) (simp_all add: short_press_demoted long_press_simps)

lemma fold_callbacks_simps:
  "joinAttempts (appContext (fold (run_button_callback e) cbs w)) = joinAttempts (appContext w)"
  "sensorInitialized (appContext (fold (run_button_callback e) cbs w)) = sensorInitialized (appContext w)"
  by (induction cbs arbitrary: w; simp add: run_button_callback_simps)+

lemma fold_callbacks_demoted:
  "sensorInitialized (appContext w) \<Longrightarrow> \<not> sensorPresent w \<Longrightarrow>
     \<not> sensorPresent (fold (run_button_callback e) cbs w)
     \<and> filter is_sensor_write (calls (fold (run_button_callback e) cbs w))
         = filter is_sensor_write (calls w)"
proof (induction cbs arbitrary: w)
  case Nil
  then show ?case by simp
next
  case (Cons cb cbs)
  have a: "sensorInitialized (appContext (run_button_callback e cb w))"
    using Cons.prems by (simp add: run_button_callback_simps)
  have b: "\<not> sensorPresent (run_button_callback e cb w)"
    using Cons.prems run_button_callback_simps(3) by blast
  show ?case
    using Cons.IH [OF a b] Cons.prems by (simp add: run_button_callback_demoted)
qed

lemma app_process_action_unfold:
  "app_process_action e w =
     fold (run_button_callback e)
       (fst (button_process (time_ms e) (pin_pressed e) (buttonContext w)))
       (w\<lparr>buttonContext := snd (button_process (time_ms e) (pin_pressed e) (buttonContext w))\<rparr>)"
  by (simp add: app_process_action_def split_beta Let_def)

lemma app_process_action_simps:
  "joinAttempts (appContext (app_process_action e w)) = joinAttempts (appContext w)"
  "sensorInitialized (appContext (app_process_action e w)) = sensorInitialized (appContext w)"
  by (simp_all add: app_process_action_unfold fold_callbacks_simps)

lemma app_process_action_demoted:
  assumes "sensorInitialized (appContext w)" and "\<not> sensorPresent w"
  shows "\<not> sensorPresent (app_process_action e w)
     \<and> filter is_sensor_write (calls (app_process_action e w)) = filter is_sensor_write (calls w)"
proof -
  let ?w1 = "w\<lparr>buttonContext := snd (button_process (time_ms e) (pin_pressed e) (buttonContext w))\<rparr>"
  have a: "sensorInitialized (appContext ?w1)" using assms by simp
  have b: "\<not> sensorPresent ?w1" using assms by simp
  show ?thesis
    using fold_callbacks_demoted [OF a b] by (simp add: app_process_action_unfold)
qed

lemma app_stack_status_callback_simps:
  "joinAttempts (appContext (app_stack_status_callback status w)) = joinAttempts (appContext w)"
  "sensorInitialized (appContext (app_stack_status_callback status w)) = sensorInitialized (appContext w)"
  "sensorPresent (app_stack_status_callback status w) = sensorPresent w"
  "filter is_sensor_write (calls (app_stack_status_callback status w)) = filter is_sensor_write (calls w)"
  by (simp_all add: app_stack_status_callback_def set_state_simps app_set_fast_poll_simps
        app_set_fast_poll_sensor_writes Let_def split: EmberStatus.splits)

lemma steering_complete_simps:
  "joinAttempts (appContext (emberAfPluginNetworkSteeringCompleteCallback e status w)) =
     (if status = EMBER_SUCCESS then joinAttempts (appContext w) else joinAttempts (appContext w) + 1)"
  "state (appContext (emberAfPluginNetworkSteeringCompleteCallback e status w)) =
     (if status = EMBER_SUCCESS then APP_STATE_JOINED_FAST_POLL else APP_STATE_NOT_JOINED)"
  "fastPollActive (appContext (emberAfPluginNetworkSteeringCompleteCallback e status w)) =
     (status = EMBER_SUCCESS \<or> fastPollActive (appContext w))"
  "sensorInitialized (appContext (emberAfPluginNetworkSteeringCompleteCallback e status w)) =
     sensorInitialized (appContext w)"
  "sensorPresent (emberAfPluginNetworkSteeringCompleteCallback e status w) = sensorPresent w"
  "filter is_sensor_write (calls (emberAfPluginNetworkSteeringCompleteCallback e status w)) =
     filter is_sensor_write (calls w)"
  by (simp_all add: emberAfPluginNetworkSteeringCompleteCallback_def call_simps
        app_set_fast_poll_simps app_set_fast_poll_sensor_writes Let_def)

lemma sensor_timer_callback_simps:
  "appContext (sensor_timer_callback e w) = appContext w"
  "sensorPresent (sensor_timer_callback e w) \<Longrightarrow> sensorPresent w"
  by (simp_all add: sensor_timer_callback_def app_update_battery_data_simps
        app_update_sensor_data_appContext app_update_sensor_data_sensorPresent split: if_splits)

lemma sensor_timer_callback_demoted:
  "sensorInitialized (appContext w) \<Longrightarrow> \<not> sensorPresent w \<Longrightarrow>
     filter is_sensor_write (calls (sensor_timer_callback e w)) = filter is_sensor_write (calls w)"
  by (simp add: sensor_timer_callback_def app_update_battery_data_sensor_writes
        app_update_sensor_data_demoted)

lemma fast_poll_timer_callback_simps:
  "joinAttempts (appContext (fast_poll_timer_callback w)) = joinAttempts (appContext w)"
  "sensorInitialized (appContext (fast_poll_timer_callback w)) = sensorInitialized (appContext w)"
  "sensorPresent (fast_poll_timer_callback w) = sensorPresent w"
  "filter is_sensor_write (calls (fast_poll_timer_callback w)) = filter is_sensor_write (calls w)"
  by (simp_all add: fast_poll_timer_callback_def transition_to_normal_poll_def set_state_simps
        app_set_fast_poll_simps app_set_fast_poll_sensor_writes)

lemma sht31_init_appContext: "appContext (snd (sht31_init e w)) = appContext w"
  by (simp add: sht31_init_def sht31_reset_def i2c_write_command_def delay_ms_def call_def Let_def)

lemma app_init_joinAttempts:
  "joinAttempts (appContext (app_init e w)) = joinAttempts (appContext w)"
  by (simp add: app_init_def split_beta Let_def set_state_simps call_simps
        app_update_battery_data_simps app_update_sensor_data_appContext sht31_init_appContext)

lemma handle_joinAttempts:
  "joinAttempts (appContext (handle ev e w)) =
     (case ev of
        SteeringComplete status \<Rightarrow>
          (if status = EMBER_SUCCESS then joinAttempts (appContext w)
           else joinAttempts (appContext w) + 1)
      | _ \<Rightarrow> joinAttempts (appContext w))"
  by (cases ev)
     (simp_all add: app_init_joinAttempts app_process_action_simps app_stack_status_callback_simps
        steering_complete_simps sensor_timer_callback_simps fast_poll_timer_callback_simps
        app_trigger_sensor_read_simps app_update_battery_data_simps)

lemma handle_demoted:
  assumes "sensorInitialized (appContext w)" and "\<not> sensorPresent w" and "ev \<noteq> MainInit"
  shows "sensorInitialized (appContext (handle ev e w))
     \<and> \<not> sensorPresent (handle ev e w)
     \<and> filter is_sensor_write (calls (handle ev e w)) = filter is_sensor_write (calls w)"
proof (cases ev)
  case MainInit
  then show ?thesis using assms by simp
next
  case MainTick
  then show ?thesis
    using assms app_process_action_demoted [OF assms(1) assms(2), of e]
    by (simp add: app_process_action_simps)
next
  case (StackStatus status)
  then show ?thesis using assms by (simp add: app_stack_status_callback_simps)
next
  case (SteeringComplete status)
  then show ?thesis using assms by (simp add: steering_complete_simps)
next
  case SensorTimer
  then show ?thesis
    using assms sensor_timer_callback_simps(2) [of e w]
    by (auto simp add: sensor_timer_callback_simps(1) sensor_timer_callback_demoted)
next
  case FastPollTimer
  then show ?thesis using assms by (simp add: fast_poll_timer_callback_simps)
next
  case GpioEdge
  then show ?thesis using assms by simp
next
  case CliSensorRead
  then show ?thesis
    using assms by (simp add: app_trigger_sensor_read_simps app_trigger_sensor_read_demoted)
next
  case CliBatteryRead
  then show ?thesis
    using assms by (simp add: app_update_battery_data_simps app_update_battery_data_sensor_writes)
qed

lemma run_demoted:
  "sensorInitialized (appContext w) \<Longrightarrow> \<not> sensorPresent w \<Longrightarrow> MainInit \<notin> fst ` set evs \<Longrightarrow>
     sensorInitialized (appContext (run evs w))
     \<and> \<not> sensorPresent (run evs w)
     \<and> filter is_sensor_write (calls (run evs w)) = filter is_sensor_write (calls w)"
proof (induction evs arbitrary: w)
  case Nil
  then show ?case by simp
next
  case (Cons x evs)
  obtain ev e where x: "x = (ev, e)" by (cases x)
  have ne: "ev \<noteq> MainInit" using Cons.prems(3) x by auto
  have rest: "MainInit \<notin> fst ` set evs" using Cons.prems(3) by auto
  note h = handle_demoted [OF Cons.prems(1) Cons.prems(2) ne, of e]
  show ?case
    using Cons.IH [OF conjunct1 [OF h] conjunct1 [OF conjunct2 [OF h]] rest] h
    by (simp add: x)
qed

section \<open>Join attempts\<close>

lemma example_world_simps:
  "state (appContext world_not_joined) = APP_STATE_NOT_JOINED"
  "joinAttempts (appContext world_not_joined) = 0"
  "state (appContext world_joining) = APP_STATE_JOINING"
  "joinAttempts (appContext world_joining) = 0"
  "\<not> network_joined env_steering_refused"
  "steering_start_status env_steering_refused \<noteq> EMBER_SUCCESS"
  by (simp_all add: world_not_joined_def world_joining_def set_state_def world_sensor_found_def
        world_init_def appContext_init_def env_steering_refused_def env_ok_def)

lemma app_start_join_refused:
  "state (appContext w) \<noteq> APP_STATE_JOINING \<Longrightarrow> \<not> network_joined e \<Longrightarrow>
     steering_start_status e \<noteq> EMBER_SUCCESS \<Longrightarrow>
     state (appContext (app_start_join e w)) = APP_STATE_NOT_JOINED"
  by (simp add: app_start_join_def set_state_simps call_simps Let_def)

text \<open>
  C8, as claimed, fails: when \<open>app_start_join\<close> finds the steering start refused, the
  session returns to \<open>NOT_JOINED\<close> but \<open>joinAttempts\<close> is not incremented.
\<close>

theorem join_attempts_start_failure_counterexample:
  "state (appContext world_not_joined) \<noteq> APP_STATE_JOINING
   \<and> \<not> network_joined env_steering_refused
   \<and> steering_start_status env_steering_refused \<noteq> EMBER_SUCCESS
   \<and> state (appContext (app_start_join env_steering_refused world_not_joined)) = APP_STATE_NOT_JOINED
   \<and> joinAttempts (appContext (app_start_join env_steering_refused world_not_joined))
       \<noteq> joinAttempts (appContext world_not_joined) + 1"
  by (simp add: app_start_join_refused app_start_join_simps example_world_simps)

text \<open>
  C8, amended. When the steering-complete callback reports a status other than success,
  the session goes to \<open>NOT_JOINED\<close> and \<open>joinAttempts\<close>, a \<open>uint8_t\<close>, is incremented by
  one (modulo 256). When \<open>app_start_join\<close> finds the steering start refused, the session
  returns to \<open>NOT_JOINED\<close> and \<open>joinAttempts\<close> is unchanged. No other handler changes
  \<open>joinAttempts\<close>.
\<close>

theorem join_attempts_counted_on_steering_failure_only:
  "(status \<noteq> EMBER_SUCCESS \<longrightarrow>
      state (appContext (emberAfPluginNetworkSteeringCompleteCallback e status w)) = APP_STATE_NOT_JOINED
      \<and> joinAttempts (appContext (emberAfPluginNetworkSteeringCompleteCallback e status w))
          = joinAttempts (appContext w) + 1
      \<and> unat (joinAttempts (appContext (emberAfPluginNetworkSteeringCompleteCallback e status w)))
          = (unat (joinAttempts (appContext w)) + 1) mod 256)
   \<and> (state (appContext w) \<noteq> APP_STATE_JOINING \<and> \<not> network_joined e
        \<and> steering_start_status e \<noteq> EMBER_SUCCESS \<longrightarrow>
      state (appContext (app_start_join e w)) = APP_STATE_NOT_JOINED
      \<and> joinAttempts (appContext (app_start_join e w)) = joinAttempts (appContext w))
   \<and> joinAttempts (appContext (handle ev e w)) =
       (case ev of
          SteeringComplete st \<Rightarrow>
            (if st = EMBER_SUCCESS then joinAttempts (appContext w)
             else joinAttempts (appContext w) + 1)
        | _ \<Rightarrow> joinAttempts (appContext w))"
proof (intro conjI impI)
  assume "status \<noteq> EMBER_SUCCESS"
  then show "state (appContext (emberAfPluginNetworkSteeringCompleteCallback e status w)) = APP_STATE_NOT_JOINED"
    and j: "joinAttempts (appContext (emberAfPluginNetworkSteeringCompleteCallback e status w))
          = joinAttempts (appContext w) + 1"
    by (simp_all add: steering_complete_simps)
  have "unat (joinAttempts (appContext w) + 1) = (unat (joinAttempts (appContext w)) + 1) mod 256"
    by (simp add: unat_word_ariths)
  then show "unat (joinAttempts (appContext (emberAfPluginNetworkSteeringCompleteCallback e status w)))
          = (unat (joinAttempts (appContext w)) + 1) mod 256"
    by (simp only: j)
next
  assume "state (appContext w) \<noteq> APP_STATE_JOINING \<and> \<not> network_joined e
        \<and> steering_start_status e \<noteq> EMBER_SUCCESS"
  then show "state (appContext (app_start_join e w)) = APP_STATE_NOT_JOINED"
    by (simp add: app_start_join_refused)
next
  show "joinAttempts (appContext (app_start_join e w)) = joinAttempts (appContext w)"
    by (rule app_start_join_simps(1))
next
  show "joinAttempts (appContext (handle ev e w)) =
       (case ev of
          SteeringComplete st \<Rightarrow>
            (if st = EMBER_SUCCESS then joinAttempts (appContext w)
             else joinAttempts (appContext w) + 1)
        | _ \<Rightarrow> joinAttempts (appContext w))"
    by (rule handle_joinAttempts)
qed

theorem join_attempts_counted_on_steering_failure_only_witness:
  "EMBER_JOIN_FAILED \<noteq> EMBER_SUCCESS
   \<and> state (appContext (emberAfPluginNetworkSteeringCompleteCallback env_ok EMBER_JOIN_FAILED world_joining))
       = APP_STATE_NOT_JOINED
   \<and> joinAttempts (appContext (emberAfPluginNetworkSteeringCompleteCallback env_ok EMBER_JOIN_FAILED world_joining))
       = 1
   \<and> state (appContext world_not_joined) \<noteq> APP_STATE_JOINING
   \<and> \<not> network_joined env_steering_refused
   \<and> steering_start_status env_steering_refused \<noteq> EMBER_SUCCESS
   \<and> state (appContext (app_start_join env_steering_refused world_not_joined)) = APP_STATE_NOT_JOINED
   \<and> joinAttempts (appContext (app_start_join env_steering_refused world_not_joined)) = 0"
proof -
  have s: "EMBER_JOIN_FAILED \<noteq> EMBER_SUCCESS" by simp
  have p: "state (appContext world_not_joined) \<noteq> APP_STATE_JOINING
           \<and> \<not> network_joined env_steering_refused
           \<and> steering_start_status env_steering_refused \<noteq> EMBER_SUCCESS"
    by (simp add: example_world_simps)
  note t1 = join_attempts_counted_on_steering_failure_only
              [of EMBER_JOIN_FAILED env_ok world_joining, THEN conjunct1, rule_format, OF s]
  note t2 = join_attempts_counted_on_steering_failure_only
              [of _ env_steering_refused world_not_joined, THEN conjunct2, THEN conjunct1,
               rule_format, OF p]
  show ?thesis
    using s p t1 t2 by (simp add: example_world_simps)
qed

section \<open>Attribute updates after a failed read\<close>

lemma app_update_sensor_data_failed_read:
  "sensorInitialized (appContext w) \<Longrightarrow> \<not> fst (fst (sht31_read e w)) \<Longrightarrow>
     filter is_attr_write (calls (app_update_sensor_data e w)) = filter is_attr_write (calls w)"
  by (simp add: app_update_sensor_data_unfold sht31_read_calls)

lemma app_update_battery_data_attr_writes:
  "filter is_attr_write (calls (app_update_battery_data e w)) =
     filter is_attr_write (calls w) @
       [emberAfWriteServerAttribute APP_ENDPOINT ZCL_POWER_CONFIG_CLUSTER_ID
          ZCL_BATTERY_VOLTAGE_ATTRIBUTE_ID
          (Data8 (ucast (battery_read_voltage (adcResult e) div 100)))
          ZCL_INT8U_ATTRIBUTE_TYPE,
        emberAfWriteServerAttribute APP_ENDPOINT ZCL_POWER_CONFIG_CLUSTER_ID
          ZCL_BATTERY_PERCENTAGE_REMAINING_ATTRIBUTE_ID
          (Data8 (battery_voltage_to_percentage (battery_read_voltage (adcResult e)) * 2))
          ZCL_INT8U_ATTRIBUTE_TYPE]"
  by (simp add: app_update_battery_data_def call_def Let_def)

text \<open>
  C10. After a boot that found the sensor (\<open>sensorInitialized\<close>), a call of
  \<open>app_update_sensor_data\<close> whose \<open>sht31_read\<close> returns \<open>false\<close> writes no attribute,
  and a sensor-timer tick in a joined phase then writes exactly the two battery
  attributes. A failed transfer on a present sensor clears \<open>sensorPresent\<close> and keeps
  \<open>sensorInitialized\<close>; from such a state no sequence of events without a new boot ever
  writes the temperature or the humidity attribute again, and the sensor stays absent.
\<close>

theorem sensor_attributes_skipped_after_failed_read:
  assumes "sensorInitialized (appContext w)"
  shows "(\<not> fst (fst (sht31_read e w)) \<longrightarrow>
            filter is_attr_write (calls (app_update_sensor_data e w)) = filter is_attr_write (calls w)
            \<and> (state (appContext w) = APP_STATE_JOINED_FAST_POLL
                 \<or> state (appContext w) = APP_STATE_JOINED_NORMAL \<longrightarrow>
                filter is_attr_write (calls (sensor_timer_callback e w)) =
                  filter is_attr_write (calls w) @
                    [emberAfWriteServerAttribute APP_ENDPOINT ZCL_POWER_CONFIG_CLUSTER_ID
                       ZCL_BATTERY_VOLTAGE_ATTRIBUTE_ID
                       (Data8 (ucast (battery_read_voltage (adcResult e) div 100)))
                       ZCL_INT8U_ATTRIBUTE_TYPE,
                     emberAfWriteServerAttribute APP_ENDPOINT ZCL_POWER_CONFIG_CLUSTER_ID
                       ZCL_BATTERY_PERCENTAGE_REMAINING_ATTRIBUTE_ID
                       (Data8 (battery_voltage_to_percentage (battery_read_voltage (adcResult e)) * 2))
                       ZCL_INT8U_ATTRIBUTE_TYPE]))
       \<and> (sensorPresent w \<and> (\<not> i2c_cmd_done e \<or> \<not> i2c_read_done e) \<longrightarrow>
            \<not> fst (fst (sht31_read e w))
            \<and> \<not> sensorPresent (app_update_sensor_data e w)
            \<and> sensorInitialized (appContext (app_update_sensor_data e w)))
       \<and> (\<not> sensorPresent w \<and> MainInit \<notin> fst ` set evs \<longrightarrow>
            filter is_sensor_write (calls (run evs w)) = filter is_sensor_write (calls w)
            \<and> \<not> sensorPresent (run evs w)
            \<and> sensorInitialized (appContext (run evs w)))"
proof (intro conjI impI)
  assume f: "\<not> fst (fst (sht31_read e w))"
  show a: "filter is_attr_write (calls (app_update_sensor_data e w)) = filter is_attr_write (calls w)"
    using assms f by (rule app_update_sensor_data_failed_read)
  assume "state (appContext w) = APP_STATE_JOINED_FAST_POLL
                 \<or> state (appContext w) = APP_STATE_JOINED_NORMAL"
  then have "sensor_timer_callback e w = app_update_battery_data e (app_update_sensor_data e w)"
    by (auto simp add: sensor_timer_callback_def)
  then show "filter is_attr_write (calls (sensor_timer_callback e w)) =
                  filter is_attr_write (calls w) @
                    [emberAfWriteServerAttribute APP_ENDPOINT ZCL_POWER_CONFIG_CLUSTER_ID
                       ZCL_BATTERY_VOLTAGE_ATTRIBUTE_ID
                       (Data8 (ucast (battery_read_voltage (adcResult e) div 100)))
                       ZCL_INT8U_ATTRIBUTE_TYPE,
                     emberAfWriteServerAttribute APP_ENDPOINT ZCL_POWER_CONFIG_CLUSTER_ID
                       ZCL_BATTERY_PERCENTAGE_REMAINING_ATTRIBUTE_ID
                       (Data8 (battery_voltage_to_percentage (battery_read_voltage (adcResult e)) * 2))
                       ZCL_INT8U_ATTRIBUTE_TYPE]"
    by (simp only: app_update_battery_data_attr_writes a)
next
  assume d: "sensorPresent w \<and> (\<not> i2c_cmd_done e \<or> \<not> i2c_read_done e)"
  then show "\<not> fst (fst (sht31_read e w))" by (auto simp add: sht31_read_success)
  show "\<not> sensorPresent (app_update_sensor_data e w)"
    using d by (auto simp add: app_update_sensor_data_sensorPresent)
  show "sensorInitialized (appContext (app_update_sensor_data e w))"
    using assms by (simp add: app_update_sensor_data_appContext)
next
  assume h: "\<not> sensorPresent w \<and> MainInit \<notin> fst ` set evs"
  note r = run_demoted [OF assms conjunct1 [OF h] conjunct2 [OF h]]
  show "filter is_sensor_write (calls (run evs w)) = filter is_sensor_write (calls w)"
    using r by blast
  show "\<not> sensorPresent (run evs w)" using r by blast
  show "sensorInitialized (appContext (run evs w))" using r by blast
qed

lemma world_joined_normal_simps:
  "sensorInitialized (appContext world_joined_normal)"
  "sensorPresent world_joined_normal"
  "state (appContext world_joined_normal) = APP_STATE_JOINED_NORMAL"
  "calls world_joined_normal = []"
  by (simp_all add: world_joined_normal_def set_state_def world_sensor_found_def world_init_def
        appContext_init_def)

theorem sensor_attributes_skipped_after_failed_read_witness:
  "sensorInitialized (appContext world_joined_normal)
   \<and> sensorPresent world_joined_normal
   \<and> \<not> i2c_read_done env_read_fails
   \<and> \<not> fst (fst (sht31_read env_read_fails world_joined_normal))
   \<and> state (appContext world_joined_normal) = APP_STATE_JOINED_NORMAL
   \<and> filter is_attr_write (calls (app_update_sensor_data env_read_fails world_joined_normal)) = []
   \<and> length (filter is_attr_write (calls (sensor_timer_callback env_read_fails world_joined_normal))) = 2
   \<and> filter is_sensor_write (calls (sensor_timer_callback env_read_fails world_joined_normal)) = []
   \<and> \<not> sensorPresent (app_update_sensor_data env_read_fails world_joined_normal)
   \<and> sensorInitialized (appContext (app_update_sensor_data env_read_fails world_joined_normal))
   \<and> MainInit \<notin> fst ` set [(SensorTimer, env_ok), (CliSensorRead, env_ok), (SensorTimer, env_ok)]
   \<and> filter is_sensor_write
        (calls (run [(SensorTimer, env_ok), (CliSensorRead, env_ok), (SensorTimer, env_ok)]
                  (app_update_sensor_data env_read_fails world_joined_normal)))
       = []"
proof -
  let ?w = world_joined_normal
  let ?w' = "app_update_sensor_data env_read_fails world_joined_normal"
  let ?evs = "[(SensorTimer, env_ok), (CliSensorRead, env_ok), (SensorTimer, env_ok)]"
  have i: "sensorInitialized (appContext ?w)" by (rule world_joined_normal_simps(1))
  have p: "sensorPresent ?w" by (rule world_joined_normal_simps(2))
  have f0: "\<not> i2c_read_done env_read_fails"
    by (simp add: env_read_fails_def)
  then have f: "\<not> i2c_cmd_done env_read_fails \<or> \<not> i2c_read_done env_read_fails" ..
  have j: "state (appContext ?w) = APP_STATE_JOINED_FAST_POLL
           \<or> state (appContext ?w) = APP_STATE_JOINED_NORMAL"
    by (simp add: world_joined_normal_simps)
  have n: "MainInit \<notin> fst ` set ?evs" by simp
  note t = sensor_attributes_skipped_after_failed_read [OF i, of env_read_fails]
  note d = t [THEN conjunct2, THEN conjunct1, rule_format, OF conjI [OF p f]]
  have r: "\<not> fst (fst (sht31_read env_read_fails ?w))" using d by blast
  note a = t [THEN conjunct1, rule_format, OF r]
  have a1: "filter is_attr_write (calls ?w') = []"
    using a by (simp add: world_joined_normal_simps)
  have a2: "length (filter is_attr_write (calls (sensor_timer_callback env_read_fails ?w))) = 2"
    using a j by (simp add: world_joined_normal_simps)
  have a3: "filter is_sensor_write (calls (sensor_timer_callback env_read_fails ?w)) = []"
  proof -
    have "filter is_sensor_write (filter is_attr_write (calls (sensor_timer_callback env_read_fails ?w))) = []"
      using a j by (simp add: world_joined_normal_simps)
    moreover have "filter is_sensor_write (filter is_attr_write xs) = filter is_sensor_write xs" for xs
      by (induction xs) (auto elim: is_sensor_write.elims)
    ultimately show ?thesis by simp
  qed
  have i': "sensorInitialized (appContext ?w')" using d by blast
  have np: "\<not> sensorPresent ?w'" using d by blast
  note c = sensor_attributes_skipped_after_failed_read [OF i', of _ ?evs, THEN conjunct2,
             THEN conjunct2, rule_format, OF conjI [OF np n]]
  have "filter is_sensor_write (calls ?w') = []"
  proof -
    have "filter is_sensor_write (filter is_attr_write (calls ?w')) = []" using a1 by simp
    moreover have "filter is_sensor_write (filter is_attr_write xs) = filter is_sensor_write xs" for xs
      by (induction xs) (auto elim: is_sensor_write.elims)
    ultimately show ?thesis by simp
  qed
  then have c1: "filter is_sensor_write (calls (run ?evs ?w')) = []" using c by simp
  show ?thesis
    using i p f0 r j a1 a2 a3 i' np n c1 world_joined_normal_simps(3) by blast
qed

section \<open>Session invariant\<close>

lemmas session_eval =
  session_join_def world_init_def appContext_init_def buttonContext_init_def env_ok_def
  app_init_def sht31_init_def sht31_reset_def i2c_write_command_def delay_ms_def
  call_def set_state_def app_process_action_def button_process_def button_gpio_callback_def
  BUTTON_DEBOUNCE_MS_def BUTTON_LONG_PRESS_MS_def app_button_short_press_def
  app_start_join_def emberAfPluginNetworkSteeringCompleteCallback_def app_set_fast_poll_def
  app_stack_status_callback_def Let_def

text \<open>
  Phase \<open>JOINED_FAST_POLL\<close> always has fast poll on: every handler keeps this half of
  the invariant, from the initial state on.
\<close>

lemma fold_preserves:
  "(\<And>x w. P w \<Longrightarrow> P (f x w)) \<Longrightarrow> P w \<Longrightarrow> P (fold f xs w)"
  by (induction xs arbitrary: w) simp_all

lemma app_start_join_phase_ok: "fast_poll_phase_ok w \<Longrightarrow> fast_poll_phase_ok (app_start_join e w)"
  by (simp add: fast_poll_phase_ok_def app_start_join_def set_state_def call_def Let_def)

lemma app_leave_network_phase_ok: "fast_poll_phase_ok w \<Longrightarrow> fast_poll_phase_ok (app_leave_network e w)"
  by (simp add: fast_poll_phase_ok_def app_leave_network_def set_state_simps call_simps
        app_set_fast_poll_simps Let_def)

lemma run_button_callback_phase_ok:
  "fast_poll_phase_ok w \<Longrightarrow> fast_poll_phase_ok (run_button_callback e cb w)"
proof (cases cb)
  case button_short_press_callback
  assume "fast_poll_phase_ok w"
  then show ?thesis
    using button_short_press_callback app_start_join_phase_ok [of w e]
    by (auto simp add: app_button_short_press_def fast_poll_phase_ok_def
          app_trigger_sensor_read_simps call_simps Let_def)
next
  case button_long_press_callback
  assume "fast_poll_phase_ok w"
  then show ?thesis
    using button_long_press_callback
    by (simp add: app_button_long_press_def app_start_join_phase_ok app_leave_network_phase_ok)
qed

lemma handle_phase_ok: "fast_poll_phase_ok w \<Longrightarrow> fast_poll_phase_ok (handle ev e w)"
proof (cases ev)
  case MainInit
  then show ?thesis
    by (simp add: fast_poll_phase_ok_def app_init_def split_beta Let_def set_state_simps
          app_update_battery_data_simps app_update_sensor_data_appContext)
next
  case MainTick
  assume ok: "fast_poll_phase_ok w"
  let ?w1 = "w\<lparr>buttonContext := snd (button_process (time_ms e) (pin_pressed e) (buttonContext w))\<rparr>"
  have "fast_poll_phase_ok ?w1" using ok by (simp add: fast_poll_phase_ok_def)
  then have "fast_poll_phase_ok (fold (run_button_callback e)
                (fst (button_process (time_ms e) (pin_pressed e) (buttonContext w))) ?w1)"
    by (rule fold_preserves [rotated]) (rule run_button_callback_phase_ok)
  then show ?thesis using MainTick by (simp add: app_process_action_unfold)
next
  case (StackStatus status)
  assume "fast_poll_phase_ok w"
  then show ?thesis
    using StackStatus
    by (simp add: fast_poll_phase_ok_def app_stack_status_callback_def set_state_simps
          app_set_fast_poll_simps Let_def split: EmberStatus.splits)
next
  case (SteeringComplete status)
  then show ?thesis
    by (simp add: fast_poll_phase_ok_def steering_complete_simps)
next
  case SensorTimer
  assume "fast_poll_phase_ok w"
  then show ?thesis
    using SensorTimer by (simp add: fast_poll_phase_ok_def sensor_timer_callback_simps)
next
  case FastPollTimer
  assume "fast_poll_phase_ok w"
  then show ?thesis
    using FastPollTimer
    by (simp add: fast_poll_phase_ok_def fast_poll_timer_callback_def
          transition_to_normal_poll_def set_state_simps app_set_fast_poll_simps)
next
  case GpioEdge
  assume "fast_poll_phase_ok w"
  then show ?thesis using GpioEdge by (simp add: fast_poll_phase_ok_def)
next
  case CliSensorRead
  assume "fast_poll_phase_ok w"
  then show ?thesis
    using CliSensorRead by (simp add: fast_poll_phase_ok_def app_trigger_sensor_read_simps)
next
  case CliBatteryRead
  assume "fast_poll_phase_ok w"
  then show ?thesis
    using CliBatteryRead by (simp add: fast_poll_phase_ok_def app_update_battery_data_simps)
qed

lemma run_phase_ok: "fast_poll_phase_ok w \<Longrightarrow> fast_poll_phase_ok (run evs w)"
proof (induction evs arbitrary: w)
  case Nil
  then show ?case by simp
next
  case (Cons x evs)
  obtain ev e where x: "x = (ev, e)" by (cases x)
  show ?case using Cons.IH [OF handle_phase_ok [OF Cons.prems, of ev e]] by (simp add: x)
qed

lemma fast_poll_phase_ok_from_boot: "fast_poll_phase_ok (run evs world_init)"
  by (rule run_phase_ok) (simp add: fast_poll_phase_ok_def world_init_def appContext_init_def)

text \<open>
  C2. The invariant "fast poll is active exactly in phase \<open>JOINED_FAST_POLL\<close>" does not
  survive every event: after a boot, a button-started join and a successful join, the
  session is in \<open>JOINED_FAST_POLL\<close> with fast poll active; a \<open>JOIN_FAILED\<close> status
  then moves it to \<open>NOT_JOINED\<close> and leaves fast poll active, and so does a failed join
  completion. The \<open>NETWORK_DOWN\<close> branch of the same handler, at the same point, switches
  fast poll off.
\<close>

theorem fast_poll_left_active_after_join_failed:
  "state (appContext (run session_join world_init)) = APP_STATE_JOINED_FAST_POLL
   \<and> fastPollActive (appContext (run session_join world_init))
   \<and> state (appContext (run (session_join @ [(StackStatus EMBER_JOIN_FAILED, env_ok)]) world_init))
       = APP_STATE_NOT_JOINED
   \<and> fastPollActive
        (appContext (run (session_join @ [(StackStatus EMBER_JOIN_FAILED, env_ok)]) world_init))
   \<and> state (appContext (run (session_join @ [(SteeringComplete EMBER_JOIN_FAILED, env_ok)]) world_init))
       = APP_STATE_NOT_JOINED
   \<and> fastPollActive
        (appContext (run (session_join @ [(SteeringComplete EMBER_JOIN_FAILED, env_ok)]) world_init))
   \<and> state (appContext (run (session_join @ [(StackStatus EMBER_NETWORK_DOWN, env_ok)]) world_init))
       = APP_STATE_NOT_JOINED
   \<and> \<not> fastPollActive
        (appContext (run (session_join @ [(StackStatus EMBER_NETWORK_DOWN, env_ok)]) world_init))"
  by (simp add: session_eval)

section \<open>Button press classification\<close>

lemmas button_eval =
  press_released_at_threshold_def second_press_def buttonContext_init_def button_process_def
  button_gpio_callback_def BUTTON_DEBOUNCE_MS_def BUTTON_LONG_PRESS_MS_def Let_def

text \<open>
  One pass of \<open>button_process\<close> invokes at most one callback; the short-press callback
  exactly on a confirmed release with no long press latched, the long-press callback
  exactly in \<open>PRESSED\<close> once the duration reaches the threshold, whatever the pin reads.
\<close>

lemma button_process_short:
  "(button_short_press_callback \<in> set (fst (button_process t p c))) =
     (bstate c = BUTTON_STATE_DEBOUNCE_RELEASE \<and> BUTTON_DEBOUNCE_MS \<le> t - releaseTimestamp c
      \<and> \<not> p \<and> \<not> longPressTriggered c)"
  by (cases "bstate c") (auto simp add: button_process_def Let_def)

lemma button_process_long:
  "(button_long_press_callback \<in> set (fst (button_process t p c))) =
     (bstate c = BUTTON_STATE_PRESSED \<and> \<not> longPressTriggered c
      \<and> BUTTON_LONG_PRESS_MS \<le> t - pressTimestamp c)"
  by (cases "bstate c") (auto simp add: button_process_def Let_def)

lemma button_process_at_most_one: "length (fst (button_process t p c)) \<le> 1"
  by (cases "bstate c") (auto simp add: button_process_def Let_def)

text \<open>
  C1. A press confirmed at 50 ms after the press timestamp 0 and read as released by the
  pass of \<open>button_process\<close> at 3000 ms is not held 3000 ms after the press, yet that
  pass invokes the long-press callback: it first moves to \<open>DEBOUNCE_RELEASE\<close> and then,
  in the same pass, to \<open>LONG_PRESS_TRIGGERED\<close>. The driver then waits, with the button
  up, for a release; the next press, half a second long and a short press on its own,
  invokes no callback at all.
\<close>

theorem button_long_press_on_release_at_threshold:
  "last press_released_at_threshold = Process 3000 False
   \<and> button_run press_released_at_threshold buttonContext_init =
       ([button_long_press_callback],
        \<lparr>bstate = BUTTON_STATE_LONG_PRESS_TRIGGERED, pressTimestamp = 0,
         releaseTimestamp = 3000, interruptPending = False, longPressTriggered = True\<rparr>)
   \<and> fst (button_run second_press buttonContext_init) = [button_short_press_callback]
   \<and> button_run (press_released_at_threshold @ second_press) buttonContext_init =
       ([button_long_press_callback],
        \<lparr>bstate = BUTTON_STATE_IDLE, pressTimestamp = 0,
         releaseTimestamp = 5500, interruptPending = False, longPressTriggered = True\<rparr>)"
  by (simp add: button_eval)

end
